theory Spec2Isabelle
  imports Complex_Main "HOL-Library.AList" "HOL-Library.Option_ord"
begin

section \<open>Data model (survey/models.py, survey/domain/entities.py)\<close>

text \<open>
  Primary keys are UUIDs in the source (\<open>uuid.uuid4\<close>); here they are natural numbers and
  a newly created row takes the store's next unused one. User ids are natural numbers,
  timestamps are integers. Fields the modelled code never reads (\<open>is_active\<close>, the
  \<open>created_at\<close> of an answer) are left out.
\<close>

type_synonym uuid = nat
type_synonym user_id = nat
type_synonym datetime = int

datatype SurveyStatus = DRAFT | ACTIVE | CLOSED | ARCHIVED

datatype QuestionType = SINGLE_CHOICE | MULTIPLE_CHOICE | TEXT

datatype ResponseStatus = IN_PROGRESS | COMPLETED

record Survey =
  uuid :: uuid
  name :: string
  status :: SurveyStatus
  owner_user_ids :: "user_id list"
  end_date :: "datetime option"
  is_anonymous :: bool

record Question =
  uuid :: uuid
  survey :: uuid
  seq_id :: int
  name :: string
  type :: QuestionType

record AnswerOption =
  uuid :: uuid
  question :: uuid
  seq_id :: int
  name :: string

record UserResponse =
  uuid :: uuid
  survey :: uuid
  user :: "user_id option"
  created_at :: datetime
  completed_at :: "datetime option"
  status :: ResponseStatus

record UserAnswer =
  uuid :: uuid
  user_response :: uuid
  question :: uuid
  answer_option :: "uuid option"
  text_answer :: "string option"

text \<open>
  The data store: one list of rows per table, in the order in which an unordered query
  returns them, and the next unused primary key.
\<close>

record DB =
  surveys :: "Survey list"
  questions :: "Question list"
  answer_options :: "AnswerOption list"
  user_responses :: "UserResponse list"
  user_answers :: "UserAnswer list"
  next_uuid :: uuid

text \<open>\<open>UserAnswerUpdate\<close> of domain/entities.py; the referenced rows are held by key.\<close>

record UserAnswerUpdate =
  user_response :: uuid
  question :: Question
  answer_option :: "uuid option"
  text_answer :: "string option"

text \<open>Python truthiness of a \<open>str | None\<close> value, and \<open>QuerySet.first()\<close>.\<close>

definition truthy :: "string option \<Rightarrow> bool" where
  "truthy t = (case t of None \<Rightarrow> False | Some s \<Rightarrow> s \<noteq> [])"

definition first :: "'a list \<Rightarrow> 'a option" where
  "first xs = (case xs of [] \<Rightarrow> None | x # _ \<Rightarrow> Some x)"

section \<open>Row operations of the object-relational mapper on user answers\<close>

text \<open>
  \<open>UserAnswer.objects.filter(user_response=r, question=q)\<close>.
\<close>

definition filter_answers :: "DB \<Rightarrow> uuid \<Rightarrow> uuid \<Rightarrow> UserAnswer list" where
  "filter_answers db r q =
     filter (\<lambda>a. UserAnswer.user_response a = r \<and> UserAnswer.question a = q) (user_answers db)"

text \<open>\<open>UserAnswer.objects.create(...)\<close>: a new row under a new primary key.\<close>

definition UserAnswer_create :: "DB \<Rightarrow> uuid \<Rightarrow> uuid \<Rightarrow> uuid option \<Rightarrow> string option \<Rightarrow> DB" where
  "UserAnswer_create db r q opt txt =
     db\<lparr>user_answers := user_answers db @
           [\<lparr>UserAnswer.uuid = next_uuid db, user_response = r, question = q,
             answer_option = opt, text_answer = txt\<rparr>],
        next_uuid := Suc (next_uuid db)\<rparr>"

text \<open>\<open>answer.delete()\<close>: removes the row whose primary key is that of the instance.\<close>

definition UserAnswer_delete :: "DB \<Rightarrow> UserAnswer \<Rightarrow> DB" where
  "UserAnswer_delete db a =
     db\<lparr>user_answers := filter (\<lambda>x. UserAnswer.uuid x \<noteq> UserAnswer.uuid a) (user_answers db)\<rparr>"

text \<open>
  \<open>answer.save(update_fields=[f])\<close>: writes field \<open>f\<close> of the instance to the row with the
  instance's primary key.
\<close>

definition UserAnswer_save_text_answer :: "DB \<Rightarrow> UserAnswer \<Rightarrow> DB" where
  "UserAnswer_save_text_answer db a =
     db\<lparr>user_answers :=
          map (\<lambda>x. if UserAnswer.uuid x = UserAnswer.uuid a
                    then x\<lparr>UserAnswer.text_answer := UserAnswer.text_answer a\<rparr> else x)
              (user_answers db)\<rparr>"

definition UserAnswer_save_answer_option :: "DB \<Rightarrow> UserAnswer \<Rightarrow> DB" where
  "UserAnswer_save_answer_option db a =
     db\<lparr>user_answers :=
          map (\<lambda>x. if UserAnswer.uuid x = UserAnswer.uuid a
                    then x\<lparr>UserAnswer.answer_option := UserAnswer.answer_option a\<rparr> else x)
              (user_answers db)\<rparr>"

section \<open>Answer update strategies (survey/services/answer_update.py)\<close>

definition TextQuestionStrategy_perform_answer_update ::
  "DB \<Rightarrow> UserAnswer \<Rightarrow> string option \<Rightarrow> DB" where
  "TextQuestionStrategy_perform_answer_update db answer txt =
     (if truthy txt
      then UserAnswer_save_text_answer db (answer\<lparr>UserAnswer.text_answer := txt\<rparr>)
      else UserAnswer_delete db answer)"

definition TextQuestionStrategy_perform_answer_create :: "DB \<Rightarrow> UserAnswerUpdate \<Rightarrow> DB" where
  "TextQuestionStrategy_perform_answer_create db u =
     (if truthy (UserAnswerUpdate.text_answer u)
      then UserAnswer_create db (UserAnswerUpdate.user_response u)
             (Question.uuid (UserAnswerUpdate.question u)) None (UserAnswerUpdate.text_answer u)
      else db)"

definition TextQuestionStrategy_handle_answer :: "DB \<Rightarrow> UserAnswerUpdate \<Rightarrow> DB" where
  "TextQuestionStrategy_handle_answer db u =
     (case first (filter_answers db (UserAnswerUpdate.user_response u)
                    (Question.uuid (UserAnswerUpdate.question u))) of
        Some answer \<Rightarrow>
          TextQuestionStrategy_perform_answer_update db answer (UserAnswerUpdate.text_answer u)
      | None \<Rightarrow> TextQuestionStrategy_perform_answer_create db u)"

definition SingleChoiceQuestionStrategy_handle_answer :: "DB \<Rightarrow> UserAnswerUpdate \<Rightarrow> DB" where
  "SingleChoiceQuestionStrategy_handle_answer db u =
     (case first (filter_answers db (UserAnswerUpdate.user_response u)
                    (Question.uuid (UserAnswerUpdate.question u))) of
        Some answer \<Rightarrow>
          UserAnswer_save_answer_option db
            (answer\<lparr>UserAnswer.answer_option := UserAnswerUpdate.answer_option u\<rparr>)
      | None \<Rightarrow>
          UserAnswer_create db (UserAnswerUpdate.user_response u)
            (Question.uuid (UserAnswerUpdate.question u)) (UserAnswerUpdate.answer_option u) None)"

definition MultipleChoiceQuestionStrategy_handle_answer :: "DB \<Rightarrow> UserAnswerUpdate \<Rightarrow> DB" where
  "MultipleChoiceQuestionStrategy_handle_answer db u =
     (case first (filter (\<lambda>a. UserAnswer.answer_option a = UserAnswerUpdate.answer_option u)
                    (filter_answers db (UserAnswerUpdate.user_response u)
                       (Question.uuid (UserAnswerUpdate.question u)))) of
        Some existing_answer \<Rightarrow> UserAnswer_delete db existing_answer
      | None \<Rightarrow>
          UserAnswer_create db (UserAnswerUpdate.user_response u)
            (Question.uuid (UserAnswerUpdate.question u)) (UserAnswerUpdate.answer_option u) None)"

text \<open>
  \<open>QuestionHandlerFactory.get_strategy\<close> followed by \<open>handle_answer\<close>, as
  \<open>UserAnswerViewSet._handle_answer\<close> calls them. The factory's table has an entry for each
  of the three question types.
\<close>

definition handle_answer :: "DB \<Rightarrow> UserAnswerUpdate \<Rightarrow> DB" where
  "handle_answer db u =
     (case Question.type (UserAnswerUpdate.question u) of
        TEXT \<Rightarrow> TextQuestionStrategy_handle_answer db u
      | SINGLE_CHOICE \<Rightarrow> SingleChoiceQuestionStrategy_handle_answer db u
      | MULTIPLE_CHOICE \<Rightarrow> MultipleChoiceQuestionStrategy_handle_answer db u)"

text \<open>The update a respondent session \<open>r\<close> sends for question \<open>q\<close>.\<close>

definition submit :: "uuid \<Rightarrow> Question \<Rightarrow> uuid option \<Rightarrow> string option \<Rightarrow> DB \<Rightarrow> DB" where
  "submit r q opt txt db =
     handle_answer db \<lparr>UserAnswerUpdate.user_response = r, question = q,
                        answer_option = opt, text_answer = txt\<rparr>"

text \<open>
  Primary keys of the answer table are unique, and the next key to be handed out is unused.
\<close>

definition answers_wf :: "DB \<Rightarrow> bool" where
  "answers_wf db \<longleftrightarrow>
     distinct (map UserAnswer.uuid (user_answers db)) \<and>
     (\<forall>a \<in> set (user_answers db). UserAnswer.uuid a < next_uuid db)"

text \<open>The answers of session \<open>r\<close> to question \<open>q\<close> that reference option \<open>opt\<close>.\<close>

definition answers_for_option :: "DB \<Rightarrow> uuid \<Rightarrow> uuid \<Rightarrow> uuid option \<Rightarrow> UserAnswer list" where
  "answers_for_option db r q opt =
     filter (\<lambda>a. UserAnswer.answer_option a = opt) (filter_answers db r q)"

text \<open>All other rows of the answer table.\<close>

definition other_answers :: "DB \<Rightarrow> uuid \<Rightarrow> uuid \<Rightarrow> uuid option \<Rightarrow> UserAnswer list" where
  "other_answers db r q opt =
     filter (\<lambda>a. \<not> (UserAnswer.user_response a = r \<and> UserAnswer.question a = q \<and>
                      UserAnswer.answer_option a = opt)) (user_answers db)"

text \<open>All rows of the answer table that are not an answer of session \<open>r\<close> to question \<open>q\<close>.\<close>

definition answers_outside :: "DB \<Rightarrow> uuid \<Rightarrow> uuid \<Rightarrow> UserAnswer list" where
  "answers_outside db r q =
     filter (\<lambda>a. \<not> (UserAnswer.user_response a = r \<and> UserAnswer.question a = q)) (user_answers db)"

text \<open>A sequence of submissions (option reference, free text) of session \<open>r\<close> for question \<open>q\<close>.\<close>

fun submit_all :: "uuid \<Rightarrow> Question \<Rightarrow> (uuid option \<times> string option) list \<Rightarrow> DB \<Rightarrow> DB" where
  "submit_all r q [] db = db"
| "submit_all r q ((opt, t) # rest) db = submit_all r q rest (submit r q opt t db)"

section \<open>Requests and errors (survey/domain/entities.py, survey/exceptions.py)\<close>

text \<open>
  \<open>UserAnswerRequest\<close>. The request's \<open>answer_option\<close> and \<open>text_answer\<close> are the raw
  strings of the request body (\<open>str | None\<close>); the validators only test their truthiness.
\<close>

record UserAnswerRequest =
  user :: "user_id option"
  survey :: Survey
  question :: "uuid option"
  answer_option :: "string option"
  text_answer :: "string option"
  user_response_uuid :: "uuid option"

text \<open>
  The message literals of survey/services/validators.py, in source order, named by what
  they say:
  \<^item> \<open>AnswerMustContainText\<close>: line 21, raised by \<open>TextAnswerValidator\<close>;
  \<^item> \<open>AnswerMissing\<close>: lines 43, 75 and 95 (the same literal, "answer is missing");
  \<^item> \<open>TextMissingInField\<close>: line 48 ("no text in the field");
  \<^item> \<open>AnswerMustContainOption\<close>: line 55, raised by \<open>ChoiceAnswerValidator\<close>;
  \<^item> \<open>AnswerMissingInField\<close>: line 81;
  \<^item> \<open>MultipleAnswersForSingleField\<close>: line 83;
  \<^item> \<open>SurveyAlreadyCompleted\<close>: line 101;
  \<^item> \<open>SurveyNotActive\<close>: line 119;
  \<^item> \<open>SurveyNotStarted\<close>: line 133;
  \<^item> \<open>NotSurveyOwner\<close>: line 150;
  \<^item> \<open>NoSurveyStatistics\<close>: line 158;
  \<^item> \<open>AnswersValidationError\<close>: line 184, the message of the aggregate error.
\<close>

datatype message =
    AnswerMustContainText
  | AnswerMissing
  | TextMissingInField
  | AnswerMustContainOption
  | AnswerMissingInField
  | MultipleAnswersForSingleField
  | SurveyAlreadyCompleted
  | SurveyNotActive
  | SurveyNotStarted
  | NotSurveyOwner
  | NoSurveyStatistics
  | AnswersValidationError

text \<open>
  \<open>ValidateAnswerError(message, question_error_map)\<close>; the map is a Python dict, kept as an
  association list in insertion order. \<open>StopIteration\<close> is what \<open>next\<close> raises on an
  exhausted iterator.
\<close>

datatype error =
    ValidateAnswerError message "(uuid \<times> message) list option"
  | StopIteration

text \<open>
  \<open>str(e)\<close> of a \<open>ValidateAnswerError\<close> raised with its message as the one positional
  argument.
\<close>

fun str_error :: "error \<Rightarrow> message option" where
  "str_error (ValidateAnswerError m _) = Some m"
| "str_error StopIteration = None"

section \<open>Queries of the managers (survey/models.py)\<close>

text \<open>
  \<open>survey.user_responses\<close>: the sessions of a survey in the model's default ordering,
  newest first.
\<close>

definition survey_user_responses :: "DB \<Rightarrow> Survey \<Rightarrow> UserResponse list" where
  "survey_user_responses db s =
     sort_key (\<lambda>r. - UserResponse.created_at r)
       (filter (\<lambda>r. UserResponse.survey r = Survey.uuid s) (user_responses db))"

definition get_user_response ::
  "DB \<Rightarrow> Survey \<Rightarrow> user_id option \<Rightarrow> uuid option \<Rightarrow> UserResponse option" where
  "get_user_response db s usr response_uuid =
     (if Survey.is_anonymous s
      then first (filter (\<lambda>r. Some (UserResponse.uuid r) = response_uuid)
                    (survey_user_responses db s))
      else first (filter (\<lambda>r. UserResponse.user r = usr) (survey_user_responses db s)))"

definition is_user_owner :: "Survey \<Rightarrow> user_id \<Rightarrow> bool" where
  "is_user_owner s u \<longleftrightarrow> u \<in> set (Survey.owner_user_ids s)"

text \<open>
  The condition by which \<open>get_survey_questions\<close> and \<open>SurveyNotStartedValidator\<close> pick the
  caller's sessions: by user when there is one, by session key otherwise.
\<close>

definition response_matches :: "user_id option \<Rightarrow> uuid option \<Rightarrow> UserResponse \<Rightarrow> bool" where
  "response_matches usr response_uuid r =
     (case usr of
        Some u \<Rightarrow> UserResponse.user r = Some u
      | None \<Rightarrow> Some (UserResponse.uuid r) = response_uuid)"

text \<open>
  The \<open>answers\<close> prefetch of \<open>get_survey_questions\<close>: the answers to the question whose
  session belongs to the caller.
\<close>

definition prefetch_answers :: "DB \<Rightarrow> user_id option \<Rightarrow> uuid option \<Rightarrow> Question \<Rightarrow> UserAnswer list" where
  "prefetch_answers db usr response_uuid q =
     filter (\<lambda>a. UserAnswer.question a = Question.uuid q \<and>
                 (\<exists>r \<in> set (user_responses db).
                     UserResponse.uuid r = UserAnswer.user_response a \<and>
                     response_matches usr response_uuid r))
       (user_answers db)"

text \<open>
  \<open>QuestionManager.get_survey_questions\<close>: the questions of the survey joined with the
  caller's sessions of that survey (one result row per question and matching session), in
  \<open>seq_id\<close> order, each with its prefetched answers.
\<close>

definition get_survey_questions ::
  "DB \<Rightarrow> Survey \<Rightarrow> user_id option \<Rightarrow> uuid option \<Rightarrow> (Question \<times> UserAnswer list) list" where
  "get_survey_questions db s usr response_uuid =
     concat (map (\<lambda>q. map (\<lambda>r. (q, prefetch_answers db usr response_uuid q))
                       (filter (\<lambda>r. UserResponse.survey r = Survey.uuid s \<and>
                                    response_matches usr response_uuid r)
                          (user_responses db)))
              (sort_key Question.seq_id
                 (filter (\<lambda>q. Question.survey q = Survey.uuid s) (questions db))))"

section \<open>Validators (survey/services/validators.py)\<close>

type_synonym validator = "DB \<Rightarrow> UserAnswerRequest \<Rightarrow> error + unit"

text \<open>\<open>AnswerValidatorMixin.get_question_type\<close>.\<close>

definition get_question_type :: "DB \<Rightarrow> uuid option \<Rightarrow> QuestionType option" where
  "get_question_type db q =
     map_option Question.type (first (filter (\<lambda>x. Some (Question.uuid x) = q) (questions db)))"

definition TextAnswerValidator_check :: validator where
  "TextAnswerValidator_check db req =
     (if get_question_type db (UserAnswerRequest.question req) = Some TEXT \<and>
         truthy (UserAnswerRequest.answer_option req)
      then Inl (ValidateAnswerError AnswerMustContainText None)
      else Inr ())"

definition ChoiceAnswerValidator_check :: validator where
  "ChoiceAnswerValidator_check db req =
     (if get_question_type db (UserAnswerRequest.question req) \<noteq> Some TEXT \<and>
         truthy (UserAnswerRequest.text_answer req)
      then Inl (ValidateAnswerError AnswerMustContainOption None)
      else Inr ())"

definition is_survey_completed :: "DB \<Rightarrow> UserAnswerRequest \<Rightarrow> bool" where
  "is_survey_completed db req =
     (case get_user_response db (UserAnswerRequest.survey req) (UserAnswerRequest.user req)
             (UserAnswerRequest.user_response_uuid req) of
        Some response \<Rightarrow> UserResponse.status response = COMPLETED
      | None \<Rightarrow> False)"

definition CompletedSurveyValidator_check :: validator where
  "CompletedSurveyValidator_check db req =
     (if is_survey_completed db req
      then Inl (ValidateAnswerError SurveyAlreadyCompleted None)
      else Inr ())"

definition IsSurveyActiveValidator_check :: validator where
  "IsSurveyActiveValidator_check db req =
     (if Survey.status (UserAnswerRequest.survey req) \<noteq> ACTIVE
      then Inl (ValidateAnswerError SurveyNotActive None)
      else Inr ())"

definition OwnerSurveyValidator_check :: validator where
  "OwnerSurveyValidator_check db req =
     (case UserAnswerRequest.user req of
        Some u \<Rightarrow>
          if \<not> is_user_owner (UserAnswerRequest.survey req) u
          then Inl (ValidateAnswerError NotSurveyOwner None)
          else Inr ()
      | None \<Rightarrow> Inr ())"

text \<open>The per-question validators; each takes the question's prefetched answers.\<close>

definition TextQuestionAnswerValidatorExtended_check :: "UserAnswer list \<Rightarrow> error + unit" where
  "TextQuestionAnswerValidatorExtended_check answers =
     (case first answers of
        None \<Rightarrow> Inl (ValidateAnswerError AnswerMissing None)
      | Some answer \<Rightarrow>
          if \<not> truthy (UserAnswer.text_answer answer)
          then Inl (ValidateAnswerError TextMissingInField None)
          else Inr ())"

definition SingleChoiceQuestionAnswerValidatorExtended_check :: "UserAnswer list \<Rightarrow> error + unit" where
  "SingleChoiceQuestionAnswerValidatorExtended_check answers =
     (if answers = [] then Inl (ValidateAnswerError AnswerMissing None)
      else let count = length answers in
        if count = 0 then Inl (ValidateAnswerError AnswerMissingInField None)
        else if count > 1 then Inl (ValidateAnswerError MultipleAnswersForSingleField None)
        else Inr ())"

definition MultipleChoiceValidatorExtendedQuestion_check :: "UserAnswer list \<Rightarrow> error + unit" where
  "MultipleChoiceValidatorExtendedQuestion_check answers =
     (if answers = [] then Inl (ValidateAnswerError AnswerMissing None) else Inr ())"

text \<open>\<open>QuestionAnswersValidator._validator_map\<close>.\<close>

fun validator_map :: "QuestionType \<Rightarrow> UserAnswer list \<Rightarrow> error + unit" where
  "validator_map TEXT = TextQuestionAnswerValidatorExtended_check"
| "validator_map SINGLE_CHOICE = SingleChoiceQuestionAnswerValidatorExtended_check"
| "validator_map MULTIPLE_CHOICE = MultipleChoiceValidatorExtendedQuestion_check"

text \<open>
  The loop of \<open>QuestionAnswersValidator.check\<close>: one step per row of the question query,
  writing \<open>question_error_map[str(question.uuid)] = str(e)\<close> when the check raises.
\<close>

definition record_failure ::
  "Question \<times> UserAnswer list \<Rightarrow> (uuid \<times> message) list \<Rightarrow> (uuid \<times> message) list" where
  "record_failure qa m =
     (case validator_map (Question.type (fst qa)) (snd qa) of
        Inl e \<Rightarrow> (case str_error e of Some msg \<Rightarrow> AList.update (Question.uuid (fst qa)) msg m
                                     | None \<Rightarrow> m)
      | Inr _ \<Rightarrow> m)"

definition question_error_map :: "DB \<Rightarrow> UserAnswerRequest \<Rightarrow> (uuid \<times> message) list" where
  "question_error_map db req =
     fold record_failure
       (get_survey_questions db (UserAnswerRequest.survey req) (UserAnswerRequest.user req)
          (UserAnswerRequest.user_response_uuid req)) []"

definition QuestionAnswersValidator_check :: validator where
  "QuestionAnswersValidator_check db req =
     (let m = question_error_map db req in
      if m \<noteq> [] then Inl (ValidateAnswerError AnswersValidationError (Some m)) else Inr ())"

text \<open>\<open>RequestBaseValidator.validate\<close>: the validators in list order; the first error leaves.\<close>

fun validate :: "validator list \<Rightarrow> DB \<Rightarrow> UserAnswerRequest \<Rightarrow> error + unit" where
  "validate [] db req = Inr ()"
| "validate (v # vs) db req = (case v db req of Inl e \<Rightarrow> Inl e | Inr _ \<Rightarrow> validate vs db req)"

definition UserAnswerChecker_validators :: "validator list" where
  "UserAnswerChecker_validators =
     [IsSurveyActiveValidator_check, ChoiceAnswerValidator_check,
      CompletedSurveyValidator_check, TextAnswerValidator_check]"

section \<open>Aggregate statistics query (\<open>UserAnswerManager.get_survey_stat\<close>)\<close>

text \<open>
  The rows of the query are dictionaries with the keys of \<open>values(...)\<close> and the three
  annotations. \<open>percentage\<close> is a float in the source; here it is the exact rational.
\<close>

record StatRow =
  question_id__survey_id__uuid :: uuid
  question_id__survey_id__name :: string
  question_id__survey_id__status :: SurveyStatus
  question_id__uuid :: uuid
  question_id__name :: string
  question_id__type :: QuestionType
  answer_option_id__uuid :: "uuid option"
  answer_option_id__name :: "string option"
  answer_count :: nat
  total_count :: nat
  percentage :: rat

text \<open>
  The store's \<open>Round(x, n)\<close>, on exact rationals: to \<open>n\<close> decimal places, a half rounded
  up.
\<close>

definition Round :: "rat \<Rightarrow> nat \<Rightarrow> rat" where
  "Round x n = of_int (round (x * 10 ^ n)) / 10 ^ n"

text \<open>
  The filter both queries share: answers whose session belongs to the survey and is
  completed.
\<close>

definition completed_answers :: "DB \<Rightarrow> uuid \<Rightarrow> UserAnswer list" where
  "completed_answers db survey_uuid =
     filter (\<lambda>a. \<exists>r \<in> set (user_responses db).
                    UserResponse.uuid r = UserAnswer.user_response a \<and>
                    UserResponse.survey r = survey_uuid \<and>
                    UserResponse.status r = COMPLETED)
       (user_answers db)"

text \<open>
  The subquery \<open>total_counts\<close>: \<open>Count("uuid")\<close> over the completed answers of the outer
  row's question.
\<close>

definition total_counts :: "DB \<Rightarrow> uuid \<Rightarrow> uuid \<Rightarrow> nat" where
  "total_counts db survey_uuid question_id =
     length (filter (\<lambda>a. UserAnswer.question a = question_id) (completed_answers db survey_uuid))"

text \<open>
  The grouping key of an answer: its question and option with the joined columns the query
  selects and orders by. The question and its survey are inner joins (the answer drops out
  when a row is missing), the option is a left join.
\<close>

record StatKey =
  key_survey :: Survey
  key_question :: Question
  key_option :: "AnswerOption option"

definition stat_key :: "DB \<Rightarrow> UserAnswer \<Rightarrow> StatKey option" where
  "stat_key db a =
     (case first (filter (\<lambda>q. Question.uuid q = UserAnswer.question a) (questions db)) of
        None \<Rightarrow> None
      | Some q \<Rightarrow>
          (case first (filter (\<lambda>s. Survey.uuid s = Question.survey q) (surveys db)) of
             None \<Rightarrow> None
           | Some s \<Rightarrow>
               Some \<lparr>key_survey = s, key_question = q,
                     key_option =
                       (case UserAnswer.answer_option a of
                          None \<Rightarrow> None
                        | Some oid \<Rightarrow>
                            first (filter (\<lambda>opt. AnswerOption.uuid opt = oid)
                                     (answer_options db)))\<rparr>))"

definition stat_row :: "DB \<Rightarrow> uuid \<Rightarrow> StatKey list \<Rightarrow> StatKey \<Rightarrow> StatRow" where
  "stat_row db survey_uuid keys k =
     (let answer_count = length (filter (\<lambda>k'. k' = k) keys);
          total_count = total_counts db survey_uuid (Question.uuid (key_question k))
      in \<lparr>question_id__survey_id__uuid = Survey.uuid (key_survey k),
           question_id__survey_id__name = Survey.name (key_survey k),
           question_id__survey_id__status = Survey.status (key_survey k),
           question_id__uuid = Question.uuid (key_question k),
           question_id__name = Question.name (key_question k),
           question_id__type = Question.type (key_question k),
           answer_option_id__uuid = map_option AnswerOption.uuid (key_option k),
           answer_option_id__name = map_option AnswerOption.name (key_option k),
           answer_count = answer_count,
           total_count = total_count,
           percentage = Round (of_nat answer_count * 100 / of_nat total_count) 2\<rparr>)"

text \<open>
  \<open>get_survey_stat\<close>: one row per group, ordered by the question's \<open>seq_id\<close>, then by the
  option's \<open>seq_id\<close> (a missing option first).
\<close>

definition get_survey_stat :: "DB \<Rightarrow> uuid \<Rightarrow> StatRow list" where
  "get_survey_stat db survey_uuid =
     (let keys = List.map_filter (stat_key db) (completed_answers db survey_uuid)
      in map (stat_row db survey_uuid keys)
           (sort_key (\<lambda>k. Question.seq_id (key_question k))
              (sort_key (\<lambda>k. map_option AnswerOption.seq_id (key_option k))
                 (remdups keys))))"

definition IsSurveyStatValidator_check :: validator where
  "IsSurveyStatValidator_check db req =
     (if get_survey_stat db (Survey.uuid (UserAnswerRequest.survey req)) = []
      then Inl (ValidateAnswerError NoSurveyStatistics None)
      else Inr ())"

definition SurveyStatChecker_validators :: "validator list" where
  "SurveyStatChecker_validators = [OwnerSurveyValidator_check, IsSurveyStatValidator_check]"

section \<open>Statistics aggregation (survey/services/complete_survey.py, factories.py)\<close>

text \<open>
  The dictionaries of the accumulator. A field the factories initialise with the empty
  string and the loop overwrites with a key or an enumeration value is an option here,
  \<open>None\<close> for the empty string.
\<close>

record AnswerStat =
  uuid :: "uuid option"
  name :: "string option"
  count :: nat
  percentage :: rat

record QuestionStatDict =
  uuid :: "uuid option"
  name :: string
  type :: "QuestionType option"
  total_count :: nat
  answers :: "AnswerStat list"

record SurveyStatDict =
  uuid :: "uuid option"
  name :: string
  status :: "SurveyStatus option"
  questions :: "(string \<times> QuestionStatDict) list"

text \<open>The survey after \<open>final_survey["questions"] = list(...values())\<close>.\<close>

record SurveyStat =
  uuid :: "uuid option"
  name :: string
  status :: "SurveyStatus option"
  questions :: "QuestionStatDict list"

definition question_factory :: QuestionStatDict where
  "question_factory =
     \<lparr>QuestionStatDict.uuid = None, name = [], type = None, total_count = 0, answers = []\<rparr>"

definition survey_factory :: SurveyStatDict where
  "survey_factory = \<lparr>SurveyStatDict.uuid = None, name = [], status = None, questions = []\<rparr>"

text \<open>
  \<open>d[k]\<close> on a \<open>defaultdict\<close>: the value under \<open>k\<close>, or the factory's value, which is then
  stored under \<open>k\<close> at the end of the dictionary. The loop body mutates the value it got;
  \<open>AList.update\<close> writes the mutated value back, in place for a key that exists and at
  the end for a new one.
\<close>

definition defaultdict_get :: "'v \<Rightarrow> ('k \<times> 'v) list \<Rightarrow> 'k \<Rightarrow> 'v" where
  "defaultdict_get factory d k = (case map_of d k of None \<Rightarrow> factory | Some v \<Rightarrow> v)"

definition stat_survey_step :: "StatRow \<Rightarrow> (string \<times> SurveyStatDict) list \<Rightarrow> (string \<times> SurveyStatDict) list" where
  "stat_survey_step item result =
     (let answer_data =
            \<lparr>AnswerStat.uuid = answer_option_id__uuid item,
             name = answer_option_id__name item,
             count = answer_count item,
             percentage = StatRow.percentage item\<rparr>;
          survey0 = defaultdict_get survey_factory result (question_id__survey_id__name item);
          survey1 = survey0\<lparr>SurveyStatDict.uuid := Some (question_id__survey_id__uuid item),
                           SurveyStatDict.name := question_id__survey_id__name item,
                           SurveyStatDict.status := Some (question_id__survey_id__status item)\<rparr>;
          question0 = defaultdict_get question_factory (SurveyStatDict.questions survey1)
                        (question_id__name item);
          question1 =
            (if QuestionStatDict.uuid question0 = None
             then question0\<lparr>QuestionStatDict.uuid := Some (question_id__uuid item),
                             QuestionStatDict.name := question_id__name item,
                             QuestionStatDict.type := Some (question_id__type item),
                             QuestionStatDict.total_count := StatRow.total_count item\<rparr>
             else question0);
          question2 = question1\<lparr>answers := answers question1 @ [answer_data]\<rparr>;
          survey2 = survey1\<lparr>SurveyStatDict.questions :=
                      AList.update (question_id__name item) question2
                        (SurveyStatDict.questions survey1)\<rparr>
      in AList.update (question_id__survey_id__name item) survey2 result)"

text \<open>
  \<open>StatSurveyService.stat_survey\<close>. \<open>next(iter(result.values()))\<close> raises on an empty
  accumulator. The serializer that ends the function keeps the structure and is left out.
\<close>

definition stat_survey :: "StatRow list \<Rightarrow> error + SurveyStat" where
  "stat_survey answer_counts =
     (case fold stat_survey_step answer_counts [] of
        [] \<Rightarrow> Inl StopIteration
      | (_, final_survey) # _ \<Rightarrow>
          Inr \<lparr>SurveyStat.uuid = SurveyStatDict.uuid final_survey,
               name = SurveyStatDict.name final_survey,
               status = SurveyStatDict.status final_survey,
               questions = map snd (SurveyStatDict.questions final_survey)\<rparr>)"

text \<open>
  The query of \<open>add_null_answer_options\<close>: the options of the question, in the model's
  default ordering by \<open>seq_id\<close>, without those whose key is listed, each with count 0 and
  percentage 0.0.
\<close>

definition null_answer :: "AnswerOption \<Rightarrow> AnswerStat" where
  "null_answer opt =
     \<lparr>AnswerStat.uuid = Some (AnswerOption.uuid opt), name = Some (AnswerOption.name opt),
      count = 0, percentage = 0\<rparr>"

definition null_answer_options :: "DB \<Rightarrow> QuestionStatDict \<Rightarrow> AnswerStat list" where
  "null_answer_options db question_stat =
     (let answers_uuid =
            List.map_filter AnswerStat.uuid (answers question_stat)
      in map null_answer
           (filter (\<lambda>opt. AnswerOption.uuid opt \<notin> set answers_uuid)
              (sort_key AnswerOption.seq_id
                 (filter (\<lambda>opt. Some (AnswerOption.question opt) = QuestionStatDict.uuid question_stat)
                    (answer_options db)))))"

definition add_null_answer_options :: "DB \<Rightarrow> SurveyStat \<Rightarrow> SurveyStat" where
  "add_null_answer_options db survey_stat =
     survey_stat\<lparr>SurveyStat.questions :=
       map (\<lambda>question. question\<lparr>answers := answers question @ null_answer_options db question\<rparr>)
         (SurveyStat.questions survey_stat)\<rparr>"

section \<open>Saving a survey (\<open>Survey.save\<close>)\<close>

text \<open>
  \<open>Survey.save(*args, **kwargs)\<close> passes its arguments on to both calls of
  \<open>super().save\<close>, which is taken to be the framework's \<open>Model.save\<close>: the base class
  \<open>TimeStampedBaseModel\<close> is not among the sources. The arguments are \<open>force_insert\<close>,
  \<open>force_update\<close> and \<open>update_fields\<close> (\<open>using\<close> selects the database and is left out).
  \<open>update_fields\<close> names fields of the model that are stored in its own table and are not
  the primary key; of these the embedding keeps the four that models.py declares.
\<close>

datatype SurveyField = Field_name | Field_status | Field_end_date | Field_is_anonymous

record SaveArgs =
  force_insert :: bool
  force_update :: bool
  update_fields :: "SurveyField list option"

text \<open>A call without arguments, as \<open>instance.save()\<close>.\<close>

definition no_args :: SaveArgs where
  "no_args = \<lparr>force_insert = False, force_update = False, update_fields = None\<rparr>"

text \<open>The arguments with which \<open>Manager.create\<close> calls \<open>save\<close>.\<close>

definition create_args :: SaveArgs where
  "create_args = \<lparr>force_insert = True, force_update = False, update_fields = None\<rparr>"

text \<open>
  What \<open>Model.save\<close> raises: \<open>ValueError\<close> for arguments that force both an insert and an
  update, \<open>IntegrityError\<close> for an insert under a primary key that exists, \<open>DatabaseError\<close>
  for a forced update that finds no row.
\<close>

datatype SaveError = ValueError | IntegrityError | DatabaseError

definition all_fields :: "SurveyField list" where
  "all_fields = [Field_name, Field_status, Field_end_date, Field_is_anonymous]"

definition pk_exists :: "DB \<Rightarrow> Survey \<Rightarrow> bool" where
  "pk_exists db self \<longleftrightarrow> (\<exists>s \<in> set (surveys db). Survey.uuid s = Survey.uuid self)"

text \<open>The row after an \<open>UPDATE\<close> that sets the fields \<open>fs\<close> to the instance's values.\<close>

definition write_fields :: "SurveyField list \<Rightarrow> Survey \<Rightarrow> Survey \<Rightarrow> Survey" where
  "write_fields fs self row =
     row\<lparr>Survey.name := (if Field_name \<in> set fs then Survey.name self else Survey.name row),
         Survey.status :=
           (if Field_status \<in> set fs then Survey.status self else Survey.status row),
         Survey.end_date :=
           (if Field_end_date \<in> set fs then Survey.end_date self else Survey.end_date row),
         Survey.is_anonymous :=
           (if Field_is_anonymous \<in> set fs then Survey.is_anonymous self
            else Survey.is_anonymous row)\<rparr>"

definition do_update :: "DB \<Rightarrow> Survey \<Rightarrow> SurveyField list \<Rightarrow> DB" where
  "do_update db self fs =
     db\<lparr>surveys := map (\<lambda>s. if Survey.uuid s = Survey.uuid self then write_fields fs self s else s)
                        (surveys db)\<rparr>"

text \<open>
  An \<open>INSERT\<close> writes every field of the table; the owners are a many-to-many relation,
  which \<open>save\<close> does not write, and a new key has none.
\<close>

definition do_insert :: "DB \<Rightarrow> Survey \<Rightarrow> DB" where
  "do_insert db self = db\<lparr>surveys := surveys db @ [self\<lparr>Survey.owner_user_ids := []\<rparr>]\<rparr>"

text \<open>
  \<open>Model.save\<close> for a survey, each write committed on its own. \<open>adding\<close> is the instance's
  \<open>_state.adding\<close>: true for an instance that was built and not yet saved, false for one
  loaded from the store. The result is the store and the flag after the call, or what the
  call raises; a call that raises leaves the store as it was.
  \<^item> Forcing an insert together with \<open>force_update\<close> or a non-empty \<open>update_fields\<close> is
    refused.
  \<^item> An empty \<open>update_fields\<close> skips the save.
  \<^item> The primary key has a default (\<open>uuid.uuid4\<close>), so saving an instance that is being
    added is an insert, as with \<open>force_insert\<close>; an insert fails when the key exists.
  \<^item> Otherwise the row with the key is updated (the fields of \<open>update_fields\<close>, or all);
    when there is no such row, a forced update or one with \<open>update_fields\<close> fails, and a
    plain save inserts.
\<close>

definition Model_save :: "SaveArgs \<Rightarrow> bool \<Rightarrow> DB \<Rightarrow> Survey \<Rightarrow> SaveError + DB \<times> bool" where
  "Model_save kw adding db self =
     (if force_insert kw \<and>
         (force_update kw \<or> (case update_fields kw of None \<Rightarrow> False | Some fs \<Rightarrow> fs \<noteq> []))
      then Inl ValueError
      else if update_fields kw = Some [] then Inr (db, adding)
      else if force_insert kw \<or> adding
      then (if pk_exists db self then Inl IntegrityError else Inr (do_insert db self, False))
      else if pk_exists db self
      then Inr (do_update db self
                  (case update_fields kw of None \<Rightarrow> all_fields | Some fs \<Rightarrow> fs), False)
      else if force_update kw \<or> update_fields kw \<noteq> None then Inl DatabaseError
      else Inr (do_insert db self, False))"

text \<open>
  The state after \<open>Survey.save\<close>: the store, the instance, and the exception that left the
  call, if any.
\<close>

record SaveOutcome =
  out_db :: DB
  out_self :: Survey
  out_raised :: "SaveError option"

text \<open>\<open>Survey.save\<close>; \<open>now\<close> is what \<open>timezone.now()\<close> returns.\<close>

definition Survey_save :: "datetime \<Rightarrow> SaveArgs \<Rightarrow> bool \<Rightarrow> DB \<Rightarrow> Survey \<Rightarrow> SaveOutcome" where
  "Survey_save now kw adding db self =
     (case Model_save kw adding db self of
        Inl e \<Rightarrow> \<lparr>out_db = db, out_self = self, out_raised = Some e\<rparr>
      | Inr (db1, adding1) \<Rightarrow>
          if Survey.status self = CLOSED
          then (let self' = self\<lparr>Survey.end_date := Some now\<rparr> in
                case Model_save kw adding1 db1 self' of
                  Inl e \<Rightarrow> \<lparr>out_db = db1, out_self = self', out_raised = Some e\<rparr>
                | Inr (db2, adding2) \<Rightarrow> \<lparr>out_db = db2, out_self = self', out_raised = None\<rparr>)
          else \<lparr>out_db = db1, out_self = self, out_raised = None\<rparr>)"

text \<open>\<open>Survey.objects.filter(uuid=...).first()\<close>, as \<open>refresh_from_db\<close> reads the row.\<close>

definition stored_survey :: "DB \<Rightarrow> uuid \<Rightarrow> Survey option" where
  "stored_survey db u = first (filter (\<lambda>s. Survey.uuid s = u) (surveys db))"

text \<open>The \<open>end_date\<close> stored under a key, if the store has a row for it.\<close>

definition stored_end_date :: "DB \<Rightarrow> uuid \<Rightarrow> datetime option option" where
  "stored_end_date db u = map_option Survey.end_date (stored_survey db u)"

text \<open>Whether a save with these arguments writes \<open>end_date\<close> when it updates a row.\<close>

definition writes_end_date :: "SaveArgs \<Rightarrow> bool" where
  "writes_end_date kw =
     (case update_fields kw of None \<Rightarrow> True | Some fs \<Rightarrow> Field_end_date \<in> set fs)"

section \<open>The specification's wording, for comparison with the code\<close>

text \<open>
  Check (2) of the specification's Submit-Answer pipeline: the answer's shape matches the
  question type, as one check between the Active check and the Completed check.
\<close>

definition spec_AnswerShapeValidator_check :: validator where
  "spec_AnswerShapeValidator_check db req =
     (if get_question_type db (UserAnswerRequest.question req) = Some TEXT \<and>
         truthy (UserAnswerRequest.answer_option req)
      then Inl (ValidateAnswerError AnswerMustContainText None)
      else if get_question_type db (UserAnswerRequest.question req) \<noteq> Some TEXT \<and>
         truthy (UserAnswerRequest.text_answer req)
      then Inl (ValidateAnswerError AnswerMustContainOption None)
      else Inr ())"

definition spec_SubmitAnswer_validators :: "validator list" where
  "spec_SubmitAnswer_validators =
     [IsSurveyActiveValidator_check, spec_AnswerShapeValidator_check,
      CompletedSurveyValidator_check]"

text \<open>
  The specification's sufficiency conditions of the per-question answer validator: Text,
  exactly one answer and its text non-empty; SingleChoice, exactly one answer;
  MultipleChoice, at least one answer.
\<close>

fun spec_sufficient :: "QuestionType \<Rightarrow> UserAnswer list \<Rightarrow> bool" where
  "spec_sufficient TEXT as = (case as of [a] \<Rightarrow> truthy (UserAnswer.text_answer a) | _ \<Rightarrow> False)"
| "spec_sufficient SINGLE_CHOICE as = (length as = 1)"
| "spec_sufficient MULTIPLE_CHOICE as = (1 \<le> length as)"

text \<open>
  The specification's \<open>total_count_for_question\<close>: the number of completed respondents
  (sessions) who answered the question at all.
\<close>

definition spec_total_count_for_question :: "DB \<Rightarrow> uuid \<Rightarrow> uuid \<Rightarrow> nat" where
  "spec_total_count_for_question db survey_uuid question_id =
     length (remdups (map UserAnswer.user_response
       (filter (\<lambda>a. UserAnswer.question a = question_id) (completed_answers db survey_uuid))))"

text \<open>
  The \<open>seq_id\<close> of the option each entry of an answer list stands for (none for an entry
  without an option), by which the specification orders the list.
\<close>

definition answer_seq_ids :: "DB \<Rightarrow> AnswerStat list \<Rightarrow> int option list" where
  "answer_seq_ids db as =
     map (\<lambda>a. case AnswerStat.uuid a of
                 None \<Rightarrow> None
               | Some u \<Rightarrow> map_option AnswerOption.seq_id
                             (first (filter (\<lambda>opt. AnswerOption.uuid opt = u) (answer_options db))))
         as"

text \<open>
  What the per-question validator records for a question of the given type with the given
  answers: for Text, whether the first answer exists and has text; for SingleChoice,
  whether there is exactly one answer; for MultipleChoice, whether there is one at all.
\<close>

fun recorded_failure :: "QuestionType \<Rightarrow> UserAnswer list \<Rightarrow> message option" where
  "recorded_failure TEXT as =
     (case as of
        [] \<Rightarrow> Some AnswerMissing
      | a # _ \<Rightarrow> if truthy (UserAnswer.text_answer a) then None else Some TextMissingInField)"
| "recorded_failure SINGLE_CHOICE as =
     (if as = [] then Some AnswerMissing
      else if 1 < length as then Some MultipleAnswersForSingleField
      else None)"
| "recorded_failure MULTIPLE_CHOICE as = (if as = [] then Some AnswerMissing else None)"

section \<open>Example data\<close>

definition empty_DB :: DB where
  "empty_DB = \<lparr>surveys = [], questions = [], answer_options = [], user_responses = [],
                user_answers = [], next_uuid = 100\<rparr>"

definition example_question :: "QuestionType \<Rightarrow> Question" where
  "example_question ty =
     \<lparr>Question.uuid = 1, survey = 0, seq_id = 1, name = ''Q1'', type = ty\<rparr>"

text \<open>A store in which session 7 has answered question 1 once, with option 3 and text "old".\<close>

definition one_answer_DB :: DB where
  "one_answer_DB = empty_DB\<lparr>user_answers :=
     [\<lparr>UserAnswer.uuid = 50, user_response = 7, question = 1, answer_option = Some 3,
       text_answer = Some ''old''\<rparr>]\<rparr>"

text \<open>
  A store with one survey (key 0, owned by user 1), a MultipleChoice question (key 1) with
  the options A, B, C (keys 11, 12, 13, in this \<open>seq_id\<close> order) and a Text question
  (key 2), and one completed session (key 21, user 5) that selected B and C and wrote a
  text.
\<close>

definition stat_DB :: DB where
  "stat_DB =
     \<lparr>surveys = [\<lparr>Survey.uuid = 0, name = ''S'', status = ACTIVE, owner_user_ids = [1],
                   end_date = None, is_anonymous = False\<rparr>],
      questions = [\<lparr>Question.uuid = 1, survey = 0, seq_id = 1, name = ''Q1'',
                     type = MULTIPLE_CHOICE\<rparr>,
                   \<lparr>Question.uuid = 2, survey = 0, seq_id = 2, name = ''Q2'', type = TEXT\<rparr>],
      answer_options = [\<lparr>AnswerOption.uuid = 11, question = 1, seq_id = 1, name = ''A''\<rparr>,
                        \<lparr>AnswerOption.uuid = 12, question = 1, seq_id = 2, name = ''B''\<rparr>,
                        \<lparr>AnswerOption.uuid = 13, question = 1, seq_id = 3, name = ''C''\<rparr>],
      user_responses = [\<lparr>UserResponse.uuid = 21, survey = 0, user = Some 5, created_at = 1,
                          completed_at = Some 9, status = COMPLETED\<rparr>],
      user_answers = [\<lparr>UserAnswer.uuid = 31, user_response = 21, question = 1,
                        answer_option = Some 12, text_answer = None\<rparr>,
                      \<lparr>UserAnswer.uuid = 32, user_response = 21, question = 1,
                        answer_option = Some 13, text_answer = None\<rparr>,
                      \<lparr>UserAnswer.uuid = 33, user_response = 21, question = 2,
                        answer_option = None, text_answer = Some ''hi''\<rparr>],
      next_uuid = 100\<rparr>"

definition stat_survey_row :: Survey where
  "stat_survey_row =
     \<lparr>Survey.uuid = 0, name = ''S'', status = ACTIVE, owner_user_ids = [1],
      end_date = None, is_anonymous = False\<rparr>"

text \<open>The owner (user 1) asks for the statistics of the survey.\<close>

definition owner_request :: UserAnswerRequest where
  "owner_request =
     \<lparr>UserAnswerRequest.user = Some 1, survey = stat_survey_row, question = None,
      answer_option = None, text_answer = None, user_response_uuid = None\<rparr>"

text \<open>
  User 5, whose session is completed, submits an option reference for the Text question.
\<close>

definition completed_text_request :: UserAnswerRequest where
  "completed_text_request =
     \<lparr>UserAnswerRequest.user = Some 5, survey = stat_survey_row, question = Some 2,
      answer_option = Some ''11'', text_answer = None, user_response_uuid = None\<rparr>"

text \<open>
  A store in which the session of user 5 (key 21, in progress) holds two answers to the
  Text question 2 of survey 0, and the request by which user 5 completes the survey.
\<close>

definition two_text_DB :: DB where
  "two_text_DB =
     \<lparr>surveys = [stat_survey_row],
      questions = [\<lparr>Question.uuid = 2, survey = 0, seq_id = 1, name = ''Q2'', type = TEXT\<rparr>],
      answer_options = [],
      user_responses = [\<lparr>UserResponse.uuid = 21, survey = 0, user = Some 5, created_at = 1,
                          completed_at = None, status = IN_PROGRESS\<rparr>],
      user_answers = [\<lparr>UserAnswer.uuid = 31, user_response = 21, question = 2,
                        answer_option = None, text_answer = Some ''x''\<rparr>,
                      \<lparr>UserAnswer.uuid = 32, user_response = 21, question = 2,
                        answer_option = None, text_answer = Some ''y''\<rparr>],
      next_uuid = 100\<rparr>"

definition complete_request :: UserAnswerRequest where
  "complete_request =
     \<lparr>UserAnswerRequest.user = Some 5, survey = stat_survey_row, question = None,
      answer_option = None, text_answer = None, user_response_uuid = None\<rparr>"

text \<open>A survey that was closed at time 10, as stored and as loaded.\<close>

definition closed_survey :: Survey where
  "closed_survey =
     \<lparr>Survey.uuid = 0, name = ''S'', status = CLOSED, owner_user_ids = [1],
      end_date = Some 10, is_anonymous = False\<rparr>"

definition closed_DB :: DB where
  "closed_DB = empty_DB\<lparr>surveys := [closed_survey]\<rparr>"

text \<open>A new survey that is created in status Closed, under a key the store does not have.\<close>

definition new_closed_survey :: Survey where
  "new_closed_survey =
     \<lparr>Survey.uuid = 7, name = ''N'', status = CLOSED, owner_user_ids = [],
      end_date = None, is_anonymous = False\<rparr>"

text \<open>The aggregated statistics of that store, before the unselected options are added.\<close>

definition stat_DB_survey_stat :: SurveyStat where
  "stat_DB_survey_stat =
     (case stat_survey (get_survey_stat stat_DB 0) of
        Inr s \<Rightarrow> s
      | Inl _ \<Rightarrow> \<lparr>SurveyStat.uuid = None, name = [], status = None, questions = []\<rparr>)"

text \<open>
  A store in which the session of user 5 has answered the SingleChoice question 1 of
  survey 0 and not the Text question 2.
\<close>

definition half_answered_DB :: DB where
  "half_answered_DB =
     \<lparr>surveys = [stat_survey_row],
      questions = [\<lparr>Question.uuid = 1, survey = 0, seq_id = 1, name = ''Q1'',
                     type = SINGLE_CHOICE\<rparr>,
                   \<lparr>Question.uuid = 2, survey = 0, seq_id = 2, name = ''Q2'', type = TEXT\<rparr>],
      answer_options = [\<lparr>AnswerOption.uuid = 11, question = 1, seq_id = 1, name = ''A''\<rparr>],
      user_responses = [\<lparr>UserResponse.uuid = 21, survey = 0, user = Some 5, created_at = 1,
                          completed_at = None, status = IN_PROGRESS\<rparr>],
      user_answers = [\<lparr>UserAnswer.uuid = 31, user_response = 21, question = 1,
                        answer_option = Some 11, text_answer = None\<rparr>],
      next_uuid = 100\<rparr>"

section \<open>Properties of the answer update strategies\<close>


lemma filter_answers_create:
  "filter_answers (UserAnswer_create db r q opt txt) r' q' =
     filter_answers db r' q' @
       (if r = r' \<and> q = q' then [\<lparr>UserAnswer.uuid = next_uuid db, user_response = r, question = q,
             answer_option = opt, text_answer = txt\<rparr>] else [])"
  by (simp add: filter_answers_def UserAnswer_create_def)

lemma answers_wf_create: "answers_wf db \<Longrightarrow> answers_wf (UserAnswer_create db r q opt txt)"
  by (auto simp: answers_wf_def UserAnswer_create_def less_Suc_eq)

lemma answers_wf_delete: "answers_wf db \<Longrightarrow> answers_wf (UserAnswer_delete db a)"
  by (auto simp: answers_wf_def UserAnswer_delete_def distinct_map_filter)

lemma first_Some_mem: "first xs = Some x \<Longrightarrow> x \<in> set xs"
  by (auto simp: first_def split: list.splits)

lemma first_None: "first xs = None \<longleftrightarrow> xs = []"
  by (auto simp: first_def split: list.splits)

lemma distinct_key_filter_one:
  "distinct (map f xs) \<Longrightarrow> a \<in> set xs \<Longrightarrow> P a \<Longrightarrow>
   length (filter P (filter (\<lambda>x. f x \<noteq> f a) xs)) = length (filter P xs) - 1"
proof (induction xs)
  case Nil then show ?case by simp
next
  case (Cons x xs)
  show ?case
  proof (cases "x = a")
    case True
    with Cons.prems have "f a \<notin> f ` set xs" by simp
    then have "\<forall>y \<in> set xs. f y \<noteq> f a" by (metis imageI)
    then have "filter (\<lambda>x. f x \<noteq> f a) xs = xs" by (simp add: filter_id_conv)
    with True Cons.prems show ?thesis by simp
  next
    case False
    with Cons.prems have a: "a \<in> set xs" and d: "distinct (map f xs)" and ne: "f x \<noteq> f a"
      by (auto simp: image_iff)
    from a Cons.prems(3) have "length (filter P xs) > 0" by (auto simp: filter_empty_conv)
    with Cons.IH[OF d a Cons.prems(3)] ne show ?thesis by auto
  qed
qed

lemma distinct_key_filter_other:
  "distinct (map f xs) \<Longrightarrow> a \<in> set xs \<Longrightarrow> P a \<Longrightarrow>
   filter (\<lambda>x. \<not> P x) (filter (\<lambda>x. f x \<noteq> f a) xs) = filter (\<lambda>x. \<not> P x) xs"
proof -
  assume d: "distinct (map f xs)" and a: "a \<in> set xs" and p: "P a"
  have "\<And>x. x \<in> set xs \<Longrightarrow> \<not> P x \<Longrightarrow> f x \<noteq> f a"
    using d a p by (metis distinct_map inj_onD)
  then show ?thesis by (induction xs) auto
qed


lemma answers_for_option_alt:
  "answers_for_option db r q opt =
     filter (\<lambda>a. UserAnswer.user_response a = r \<and> UserAnswer.question a = q \<and>
                 UserAnswer.answer_option a = opt) (user_answers db)"
  by (simp add: answers_for_option_def filter_answers_def conj_commute conj_left_commute)

lemma toggle_step:
  assumes wf: "answers_wf db" and ty: "Question.type q = MULTIPLE_CHOICE"
    and le: "length (answers_for_option db r (Question.uuid q) opt) \<le> 1"
  shows "answers_wf (submit r q opt txt db) \<and>
         length (answers_for_option (submit r q opt txt db) r (Question.uuid q) opt) =
           1 - length (answers_for_option db r (Question.uuid q) opt) \<and>
         other_answers (submit r q opt txt db) r (Question.uuid q) opt =
           other_answers db r (Question.uuid q) opt"
proof (cases "first (answers_for_option db r (Question.uuid q) opt)")
  case None
  then have e: "answers_for_option db r (Question.uuid q) opt = []" by (simp add: first_None)
  have s: "submit r q opt txt db = UserAnswer_create db r (Question.uuid q) opt None"
    using None ty
    by (simp add: submit_def handle_answer_def MultipleChoiceQuestionStrategy_handle_answer_def
        answers_for_option_def)
  have "answers_wf (UserAnswer_create db r (Question.uuid q) opt None)"
    using wf by (rule answers_wf_create)
  moreover have "length (answers_for_option (UserAnswer_create db r (Question.uuid q) opt None)
                    r (Question.uuid q) opt) = 1"
    using e by (simp add: answers_for_option_alt UserAnswer_create_def)
  moreover have "other_answers (UserAnswer_create db r (Question.uuid q) opt None)
                    r (Question.uuid q) opt = other_answers db r (Question.uuid q) opt"
    by (simp add: other_answers_def UserAnswer_create_def)
  ultimately show ?thesis
    using e unfolding s by simp
next
  case (Some a)
  let ?P = "\<lambda>a. UserAnswer.user_response a = r \<and> UserAnswer.question a = Question.uuid q \<and>
                 UserAnswer.answer_option a = opt"
  from Some have "a \<in> set (answers_for_option db r (Question.uuid q) opt)"
    by (rule first_Some_mem)
  then have mem: "a \<in> set (user_answers db)" and pa: "?P a"
    by (auto simp: answers_for_option_alt)
  from mem pa have pos: "length (answers_for_option db r (Question.uuid q) opt) > 0"
    by (auto simp: answers_for_option_alt filter_empty_conv)
  have s: "submit r q opt txt db = UserAnswer_delete db a"
    using Some ty
    by (simp add: submit_def handle_answer_def MultipleChoiceQuestionStrategy_handle_answer_def
        answers_for_option_def)
  from wf have d: "distinct (map UserAnswer.uuid (user_answers db))"
    by (simp add: answers_wf_def)
  have c: "length (answers_for_option (UserAnswer_delete db a) r (Question.uuid q) opt) =
           length (answers_for_option db r (Question.uuid q) opt) - 1"
    using distinct_key_filter_one[OF d mem, of ?P] pa
    by (simp add: answers_for_option_alt UserAnswer_delete_def)
  have o: "other_answers (UserAnswer_delete db a) r (Question.uuid q) opt =
           other_answers db r (Question.uuid q) opt"
    using distinct_key_filter_other[OF d mem, of ?P] pa
    by (simp add: other_answers_def UserAnswer_delete_def)
  from pos le have one: "length (answers_for_option db r (Question.uuid q) opt) = 1"
    by linarith
  show ?thesis
    unfolding s using c o one wf by (simp add: answers_wf_delete)
qed

lemma toggle_iterate:
  assumes ty: "Question.type q = MULTIPLE_CHOICE" and wf: "answers_wf db"
    and e: "answers_for_option db r (Question.uuid q) opt = []"
  shows "answers_wf ((submit r q opt txt ^^ n) db) \<and>
         length (answers_for_option ((submit r q opt txt ^^ n) db) r (Question.uuid q) opt) =
           (if odd n then 1 else 0) \<and>
         other_answers ((submit r q opt txt ^^ n) db) r (Question.uuid q) opt =
           other_answers db r (Question.uuid q) opt"
proof (induction n)
  case 0
  with wf e show ?case by simp
next
  case (Suc n)
  let ?db = "(submit r q opt txt ^^ n) db"
  from Suc have wf': "answers_wf ?db"
    and le: "length (answers_for_option ?db r (Question.uuid q) opt) \<le> 1"
    by (auto split: if_splits)
  from toggle_step[OF wf' ty le, of "txt"] Suc show ?case
    by (auto split: if_splits)
qed


lemma filter_map_key:
  "(\<And>x. P (g x) = P x) \<Longrightarrow> filter P (map g xs) = map g (filter P xs)"
  by (induction xs) auto

lemma filter_answers_save_option:
  "filter_answers (UserAnswer_save_answer_option db a) r q =
     map (\<lambda>x. if UserAnswer.uuid x = UserAnswer.uuid a
               then x\<lparr>UserAnswer.answer_option := UserAnswer.answer_option a\<rparr> else x)
         (filter_answers db r q)"
  unfolding filter_answers_def UserAnswer_save_answer_option_def
  by (simp add: filter_map_key)

lemma filter_answers_save_text:
  "filter_answers (UserAnswer_save_text_answer db a) r q =
     map (\<lambda>x. if UserAnswer.uuid x = UserAnswer.uuid a
               then x\<lparr>UserAnswer.text_answer := UserAnswer.text_answer a\<rparr> else x)
         (filter_answers db r q)"
  unfolding filter_answers_def UserAnswer_save_text_answer_def
  by (simp add: filter_map_key)

lemma single_step:
  assumes ty: "Question.type q = SINGLE_CHOICE"
    and le: "length (filter_answers db r (Question.uuid q)) \<le> 1"
  shows "\<exists>a. filter_answers (submit r q opt t db) r (Question.uuid q) = [a] \<and>
             UserAnswer.answer_option a = opt"
proof (cases "filter_answers db r (Question.uuid q)")
  case Nil
  then show ?thesis using ty
    by (simp add: submit_def handle_answer_def SingleChoiceQuestionStrategy_handle_answer_def
        first_def filter_answers_create)
next
  case (Cons a rest)
  with le have rest: "rest = []" by simp
  show ?thesis using ty Cons rest
    by (simp add: submit_def handle_answer_def SingleChoiceQuestionStrategy_handle_answer_def
        first_def filter_answers_save_option)
qed

lemma single_all:
  assumes ty: "Question.type q = SINGLE_CHOICE"
  shows "length (filter_answers db r (Question.uuid q)) \<le> 1 \<Longrightarrow> subs \<noteq> [] \<Longrightarrow>
    \<exists>a. filter_answers (submit_all r q subs db) r (Question.uuid q) = [a] \<and>
        UserAnswer.answer_option a = fst (last subs)"
proof (induction subs arbitrary: db)
  case Nil
  then show ?case by simp
next
  case (Cons s subs)
  obtain opt t where s: "s = (opt, t)" by (cases s)
  from single_step[OF ty Cons.prems(1), of opt t]
  obtain a where a: "filter_answers (submit r q opt t db) r (Question.uuid q) = [a]"
    "UserAnswer.answer_option a = opt" by blast
  show ?case
  proof (cases "subs = []")
    case True
    with a s show ?thesis by simp
  next
    case False
    from a have "length (filter_answers (submit r q opt t db) r (Question.uuid q)) \<le> 1" by simp
    from Cons.IH[OF this False] s False show ?thesis by simp
  qed
qed


lemma answers_outside_map:
  "(\<And>x. UserAnswer.user_response (g x) = UserAnswer.user_response x \<and>
         UserAnswer.question (g x) = UserAnswer.question x) \<Longrightarrow>
   (\<And>x. x \<in> set xs \<Longrightarrow> \<not> (UserAnswer.user_response x = r \<and> UserAnswer.question x = q) \<Longrightarrow> g x = x) \<Longrightarrow>
   filter (\<lambda>a. \<not> (UserAnswer.user_response a = r \<and> UserAnswer.question a = q)) (map g xs) =
   filter (\<lambda>a. \<not> (UserAnswer.user_response a = r \<and> UserAnswer.question a = q)) xs"
  by (induction xs) auto

lemma text_create:
  assumes ty: "Question.type q = TEXT" and tr: "truthy t"
    and e: "filter_answers db r (Question.uuid q) = []"
  shows "submit r q opt t db = UserAnswer_create db r (Question.uuid q) None t"
  using ty tr e
  by (simp add: submit_def handle_answer_def TextQuestionStrategy_handle_answer_def first_def
      TextQuestionStrategy_perform_answer_create_def)

lemma text_noop:
  assumes ty: "Question.type q = TEXT" and tr: "\<not> truthy t"
    and e: "filter_answers db r (Question.uuid q) = []"
  shows "submit r q opt t db = db"
  using ty tr e
  by (simp add: submit_def handle_answer_def TextQuestionStrategy_handle_answer_def first_def
      TextQuestionStrategy_perform_answer_create_def)

lemma text_update:
  assumes ty: "Question.type q = TEXT" and tr: "truthy t"
    and e: "filter_answers db r (Question.uuid q) = a # rest"
  shows "submit r q opt t db = UserAnswer_save_text_answer db (a\<lparr>UserAnswer.text_answer := t\<rparr>)"
  using ty tr e
  by (simp add: submit_def handle_answer_def TextQuestionStrategy_handle_answer_def first_def
      TextQuestionStrategy_perform_answer_update_def)

lemma text_delete:
  assumes ty: "Question.type q = TEXT" and tr: "\<not> truthy t"
    and e: "filter_answers db r (Question.uuid q) = a # rest"
  shows "submit r q opt t db = UserAnswer_delete db a"
  using ty tr e
  by (simp add: submit_def handle_answer_def TextQuestionStrategy_handle_answer_def first_def
      TextQuestionStrategy_perform_answer_update_def)

lemma filter_answers_mem:
  "filter_answers db r q = a # rest \<Longrightarrow>
     a \<in> set (user_answers db) \<and> UserAnswer.user_response a = r \<and> UserAnswer.question a = q"
proof -
  assume "filter_answers db r q = a # rest"
  then have "a \<in> set (filter_answers db r q)" by simp
  then show ?thesis by (simp add: filter_answers_def)
qed

lemma filter_answers_distinct:
  "answers_wf db \<Longrightarrow> distinct (map UserAnswer.uuid (filter_answers db r q))"
  by (simp add: answers_wf_def filter_answers_def distinct_map_filter)

lemma distinct_head_key:
  assumes "distinct (map f (a # rest))"
  shows "\<forall>x \<in> set rest. f x \<noteq> f a"
proof -
  from assms have "f a \<notin> f ` set rest" by simp
  then show ?thesis by (metis imageI)
qed

lemma save_text_in_place:
  assumes wf: "answers_wf db" and e: "filter_answers db r q = a # rest"
  shows "filter_answers (UserAnswer_save_text_answer db (a\<lparr>UserAnswer.text_answer := t\<rparr>)) r q =
           a\<lparr>UserAnswer.text_answer := t\<rparr> # rest"
    and "answers_outside (UserAnswer_save_text_answer db (a\<lparr>UserAnswer.text_answer := t\<rparr>)) r q =
           answers_outside db r q"
    and "map UserAnswer.uuid (user_answers (UserAnswer_save_text_answer db (a\<lparr>UserAnswer.text_answer := t\<rparr>))) =
           map UserAnswer.uuid (user_answers db)"
proof -
  from filter_answers_distinct[OF wf, of r q] e
  have "\<forall>x \<in> set rest. UserAnswer.uuid x \<noteq> UserAnswer.uuid a"
    by (metis distinct_head_key)
  then have "map (\<lambda>x. if UserAnswer.uuid x = UserAnswer.uuid a
               then x\<lparr>UserAnswer.text_answer := t\<rparr> else x) rest = rest"
    by (simp add: map_idI)
  with e show "filter_answers (UserAnswer_save_text_answer db (a\<lparr>UserAnswer.text_answer := t\<rparr>)) r q =
           a\<lparr>UserAnswer.text_answer := t\<rparr> # rest"
    by (simp add: filter_answers_save_text cong del: if_weak_cong)
  from wf have d: "distinct (map UserAnswer.uuid (user_answers db))" by (simp add: answers_wf_def)
  from filter_answers_mem[OF e] have mem: "a \<in> set (user_answers db)"
    and pa: "UserAnswer.user_response a = r \<and> UserAnswer.question a = q" by simp_all
  have "\<And>x. x \<in> set (user_answers db) \<Longrightarrow>
          \<not> (UserAnswer.user_response x = r \<and> UserAnswer.question x = q) \<Longrightarrow>
          UserAnswer.uuid x \<noteq> UserAnswer.uuid a"
    using d mem pa by (metis distinct_map inj_onD)
  then have "filter (\<lambda>a. \<not> (UserAnswer.user_response a = r \<and> UserAnswer.question a = q))
          (map (\<lambda>x. if UserAnswer.uuid x = UserAnswer.uuid a
                     then x\<lparr>UserAnswer.text_answer := t\<rparr> else x) (user_answers db)) =
        filter (\<lambda>a. \<not> (UserAnswer.user_response a = r \<and> UserAnswer.question a = q))
          (user_answers db)"
    by (intro answers_outside_map) auto
  then show "answers_outside (UserAnswer_save_text_answer db (a\<lparr>UserAnswer.text_answer := t\<rparr>)) r q =
           answers_outside db r q"
    by (simp add: answers_outside_def UserAnswer_save_text_answer_def cong del: if_weak_cong)
  show "map UserAnswer.uuid (user_answers (UserAnswer_save_text_answer db (a\<lparr>UserAnswer.text_answer := t\<rparr>))) =
           map UserAnswer.uuid (user_answers db)"
    by (simp add: UserAnswer_save_text_answer_def comp_def if_distrib cong: if_cong)
qed

lemma delete_first:
  assumes wf: "answers_wf db" and e: "filter_answers db r q = a # rest"
  shows "filter_answers (UserAnswer_delete db a) r q = rest"
    and "answers_outside (UserAnswer_delete db a) r q = answers_outside db r q"
proof -
  from filter_answers_distinct[OF wf, of r q] e
  have ne: "\<forall>x \<in> set rest. UserAnswer.uuid x \<noteq> UserAnswer.uuid a"
    by (metis distinct_head_key)
  have "filter_answers (UserAnswer_delete db a) r q =
        filter (\<lambda>x. UserAnswer.uuid x \<noteq> UserAnswer.uuid a) (filter_answers db r q)"
    by (simp add: filter_answers_def UserAnswer_delete_def conj_commute)
  also have "\<dots> = rest" using e ne by (simp add: filter_id_conv)
  finally show "filter_answers (UserAnswer_delete db a) r q = rest" .
  from wf have d: "distinct (map UserAnswer.uuid (user_answers db))" by (simp add: answers_wf_def)
  from filter_answers_mem[OF e] have mem: "a \<in> set (user_answers db)"
    and pa: "UserAnswer.user_response a = r \<and> UserAnswer.question a = q" by simp_all
  show "answers_outside (UserAnswer_delete db a) r q = answers_outside db r q"
    using distinct_key_filter_other[OF d mem,
        of "\<lambda>x. UserAnswer.user_response x = r \<and> UserAnswer.question x = q"] pa
    by (simp add: answers_outside_def UserAnswer_delete_def)
qed


lemma answers_wf_save_text:
  "answers_wf db \<Longrightarrow> answers_wf (UserAnswer_save_text_answer db a)"
  by (auto simp: answers_wf_def UserAnswer_save_text_answer_def comp_def if_distrib cong: if_cong)

text \<open>
  Claim C2. For a MultipleChoice question \<open>q\<close> and a session \<open>r\<close> that has no answer for option
  \<open>opt\<close> yet, submitting \<open>opt\<close> \<open>n\<close> times leaves exactly one answer row for
  (session, question, option) when \<open>n\<close> is odd and none when \<open>n\<close> is even; every other row of
  the answer table, in particular the answers for the other options of the question, is as
  it was.
\<close>

theorem multiple_choice_toggle:
  assumes "Question.type q = MULTIPLE_CHOICE" and "answers_wf db"
    and "answers_for_option db r (Question.uuid q) opt = []"
  shows "length (answers_for_option ((submit r q opt t ^^ n) db) r (Question.uuid q) opt) =
           (if odd n then 1 else 0) \<and>
         other_answers ((submit r q opt t ^^ n) db) r (Question.uuid q) opt =
           other_answers db r (Question.uuid q) opt"
  using toggle_iterate[OF assms, of n t] by simp

theorem multiple_choice_toggle_witness:
  "Question.type (example_question MULTIPLE_CHOICE) = MULTIPLE_CHOICE \<and>
   answers_wf one_answer_DB \<and>
   answers_for_option one_answer_DB 7 (Question.uuid (example_question MULTIPLE_CHOICE)) (Some 4) = [] \<and>
   length (answers_for_option ((submit 7 (example_question MULTIPLE_CHOICE) (Some 4) None ^^ 3)
             one_answer_DB) 7 (Question.uuid (example_question MULTIPLE_CHOICE)) (Some 4)) = 1 \<and>
   length (answers_for_option ((submit 7 (example_question MULTIPLE_CHOICE) (Some 4) None ^^ 2)
             one_answer_DB) 7 (Question.uuid (example_question MULTIPLE_CHOICE)) (Some 4)) = 0 \<and>
   other_answers ((submit 7 (example_question MULTIPLE_CHOICE) (Some 4) None ^^ 3) one_answer_DB)
       7 (Question.uuid (example_question MULTIPLE_CHOICE)) (Some 4) = user_answers one_answer_DB"
proof -
  have h1: "Question.type (example_question MULTIPLE_CHOICE) = MULTIPLE_CHOICE"
    by (simp add: example_question_def)
  have h2: "answers_wf one_answer_DB"
    by (simp add: answers_wf_def one_answer_DB_def empty_DB_def)
  have h3: "answers_for_option one_answer_DB 7 (Question.uuid (example_question MULTIPLE_CHOICE))
              (Some 4) = []"
    by (simp add: answers_for_option_def filter_answers_def one_answer_DB_def empty_DB_def
        example_question_def)
  have h4: "other_answers one_answer_DB 7 (Question.uuid (example_question MULTIPLE_CHOICE))
              (Some 4) = user_answers one_answer_DB"
    by (simp add: other_answers_def one_answer_DB_def empty_DB_def example_question_def)
  show ?thesis
    using h1 h2 h3 h4 multiple_choice_toggle[OF h1 h2 h3, of 3 None]
      multiple_choice_toggle[OF h1 h2 h3, of 2 None]
    by simp
qed

text \<open>
  Claim C3. For a SingleChoice question \<open>q\<close> and a session \<open>r\<close> holding at most one answer
  to it, after any non-empty sequence of submissions exactly one answer row exists for
  (session, question), and its option reference is the one submitted last; submitting the
  same option twice in a row is the case of a sequence of two equal submissions.
\<close>

theorem single_choice_last_wins:
  assumes "Question.type q = SINGLE_CHOICE"
    and "length (filter_answers db r (Question.uuid q)) \<le> 1"
    and "subs \<noteq> []"
  shows "\<exists>a. filter_answers (submit_all r q subs db) r (Question.uuid q) = [a] \<and>
             UserAnswer.answer_option a = fst (last subs)"
  using single_all[OF assms] .

theorem single_choice_last_wins_witness:
  "Question.type (example_question SINGLE_CHOICE) = SINGLE_CHOICE \<and>
   length (filter_answers one_answer_DB 7 (Question.uuid (example_question SINGLE_CHOICE))) \<le> 1 \<and>
   [(Some 5, None), (Some (5::nat), None::string option)] \<noteq> [] \<and>
   (\<exists>a. filter_answers (submit_all 7 (example_question SINGLE_CHOICE)
                          [(Some 5, None), (Some 5, None)] one_answer_DB)
            7 (Question.uuid (example_question SINGLE_CHOICE)) = [a] \<and>
        UserAnswer.answer_option a = Some 5)"
proof -
  have h1: "Question.type (example_question SINGLE_CHOICE) = SINGLE_CHOICE"
    by (simp add: example_question_def)
  have h2: "length (filter_answers one_answer_DB 7 (Question.uuid (example_question SINGLE_CHOICE))) \<le> 1"
    by (simp add: filter_answers_def one_answer_DB_def empty_DB_def example_question_def)
  have h3: "[(Some 5, None), (Some (5::nat), None::string option)] \<noteq> []" by simp
  show ?thesis
    using h1 h2 h3 single_choice_last_wins[OF h1 h2 h3] by simp
qed

text \<open>
  Claim C4. For a Text question \<open>q\<close> and a session \<open>r\<close>: a submission with non-empty text
  creates the answer when none exists and otherwise rewrites the text of the existing row in
  place (same rows and keys, nothing else changed); a submission with empty or absent text
  deletes the existing row, and changes nothing when there is none. Hence empty text after
  non-empty text leaves no answer for (session, question).
\<close>

theorem text_answer_update:
  assumes ty: "Question.type q = TEXT" and wf: "answers_wf db"
  shows "(truthy t \<and> filter_answers db r (Question.uuid q) = [] \<longrightarrow>
            user_answers (submit r q opt t db) =
              user_answers db @
                [\<lparr>UserAnswer.uuid = next_uuid db, user_response = r, question = Question.uuid q,
                  answer_option = None, text_answer = t\<rparr>]) \<and>
         (\<forall>a rest. truthy t \<and> filter_answers db r (Question.uuid q) = a # rest \<longrightarrow>
            filter_answers (submit r q opt t db) r (Question.uuid q) =
              a\<lparr>UserAnswer.text_answer := t\<rparr> # rest \<and>
            answers_outside (submit r q opt t db) r (Question.uuid q) =
              answers_outside db r (Question.uuid q) \<and>
            map UserAnswer.uuid (user_answers (submit r q opt t db)) =
              map UserAnswer.uuid (user_answers db)) \<and>
         (\<forall>a rest. \<not> truthy t \<and> filter_answers db r (Question.uuid q) = a # rest \<longrightarrow>
            filter_answers (submit r q opt t db) r (Question.uuid q) = rest \<and>
            answers_outside (submit r q opt t db) r (Question.uuid q) =
              answers_outside db r (Question.uuid q)) \<and>
         (\<not> truthy t \<and> filter_answers db r (Question.uuid q) = [] \<longrightarrow>
            submit r q opt t db = db) \<and>
         (length (filter_answers db r (Question.uuid q)) \<le> 1 \<and> truthy t \<and> \<not> truthy t' \<longrightarrow>
            filter_answers (submit r q opt' t' (submit r q opt t db)) r (Question.uuid q) = [])"
proof (intro conjI allI impI)
  assume "truthy t \<and> filter_answers db r (Question.uuid q) = []"
  then show "user_answers (submit r q opt t db) =
              user_answers db @
                [\<lparr>UserAnswer.uuid = next_uuid db, user_response = r, question = Question.uuid q,
                  answer_option = None, text_answer = t\<rparr>]"
    by (simp add: text_create[OF ty] UserAnswer_create_def)
next
  fix a rest
  assume h: "truthy t \<and> filter_answers db r (Question.uuid q) = a # rest"
  then have s: "submit r q opt t db =
      UserAnswer_save_text_answer db (a\<lparr>UserAnswer.text_answer := t\<rparr>)"
    by (simp add: text_update[OF ty])
  from h have e: "filter_answers db r (Question.uuid q) = a # rest" by simp
  show "filter_answers (submit r q opt t db) r (Question.uuid q) =
              a\<lparr>UserAnswer.text_answer := t\<rparr> # rest"
    unfolding s by (rule save_text_in_place(1)[OF wf e])
  show "answers_outside (submit r q opt t db) r (Question.uuid q) =
              answers_outside db r (Question.uuid q)"
    unfolding s by (rule save_text_in_place(2)[OF wf e])
  show "map UserAnswer.uuid (user_answers (submit r q opt t db)) =
              map UserAnswer.uuid (user_answers db)"
    unfolding s by (rule save_text_in_place(3)[OF wf e])
next
  fix a rest
  assume h: "\<not> truthy t \<and> filter_answers db r (Question.uuid q) = a # rest"
  then have s: "submit r q opt t db = UserAnswer_delete db a"
    by (simp add: text_delete[OF ty])
  from h have e: "filter_answers db r (Question.uuid q) = a # rest" by simp
  show "filter_answers (submit r q opt t db) r (Question.uuid q) = rest"
    unfolding s by (rule delete_first(1)[OF wf e])
  show "answers_outside (submit r q opt t db) r (Question.uuid q) =
              answers_outside db r (Question.uuid q)"
    unfolding s by (rule delete_first(2)[OF wf e])
next
  assume "\<not> truthy t \<and> filter_answers db r (Question.uuid q) = []"
  then show "submit r q opt t db = db"
    by (simp add: text_noop[OF ty])
next
  assume h: "length (filter_answers db r (Question.uuid q)) \<le> 1 \<and> truthy t \<and> \<not> truthy t'"
  let ?db = "submit r q opt t db"
  have "answers_wf ?db \<and> (\<exists>b. filter_answers ?db r (Question.uuid q) = [b])"
  proof (cases "filter_answers db r (Question.uuid q)")
    case Nil
    with h have "?db = UserAnswer_create db r (Question.uuid q) None t"
      by (simp add: text_create[OF ty])
    with wf Nil show ?thesis
      by (simp add: answers_wf_create filter_answers_create)
  next
    case (Cons a rest)
    with h have rest: "rest = []" by simp
    from h Cons have s: "?db = UserAnswer_save_text_answer db (a\<lparr>UserAnswer.text_answer := t\<rparr>)"
      by (simp add: text_update[OF ty])
    from save_text_in_place(1)[OF wf Cons, of t] rest wf show ?thesis
      unfolding s by (simp add: answers_wf_save_text)
  qed
  then obtain b where wf': "answers_wf ?db" and b: "filter_answers ?db r (Question.uuid q) = [b]"
    by blast
  from h b have "submit r q opt' t' ?db = UserAnswer_delete ?db b"
    by (simp add: text_delete[OF ty])
  with delete_first(1)[OF wf' b]
  show "filter_answers (submit r q opt' t' ?db) r (Question.uuid q) = []" by simp
qed

theorem text_answer_update_witness:
  "Question.type (example_question TEXT) = TEXT \<and> answers_wf empty_DB \<and> answers_wf one_answer_DB \<and>
   truthy (Some ''new'') \<and> \<not> truthy (Some '''') \<and> \<not> truthy None \<and>
   filter_answers empty_DB 7 1 = [] \<and>
   filter_answers one_answer_DB 7 1 = user_answers one_answer_DB \<and>
   length (filter_answers empty_DB 7 1) \<le> 1 \<and>
   user_answers (submit 7 (example_question TEXT) None (Some ''new'') empty_DB) =
     [\<lparr>UserAnswer.uuid = 100, user_response = 7, question = 1, answer_option = None,
       text_answer = Some ''new''\<rparr>] \<and>
   filter_answers (submit 7 (example_question TEXT) None (Some ''new'') one_answer_DB) 7 1 =
     [\<lparr>UserAnswer.uuid = 50, user_response = 7, question = 1, answer_option = Some 3,
       text_answer = Some ''new''\<rparr>] \<and>
   filter_answers (submit 7 (example_question TEXT) None (Some '''') one_answer_DB) 7 1 = [] \<and>
   submit 7 (example_question TEXT) None None empty_DB = empty_DB \<and>
   filter_answers (submit 7 (example_question TEXT) None None
      (submit 7 (example_question TEXT) None (Some ''new'') empty_DB)) 7 1 = []"
proof -
  have h1: "Question.type (example_question TEXT) = TEXT"
    by (simp add: example_question_def)
  have u: "Question.uuid (example_question TEXT) = 1"
    by (simp add: example_question_def)
  have w0: "answers_wf empty_DB"
    by (simp add: answers_wf_def empty_DB_def)
  have w1: "answers_wf one_answer_DB"
    by (simp add: answers_wf_def one_answer_DB_def empty_DB_def)
  have t: "truthy (Some ''new'')" "\<not> truthy (Some '''')" "\<not> truthy None"
    by (simp_all add: truthy_def)
  have f0: "filter_answers empty_DB 7 1 = []"
    by (simp add: filter_answers_def empty_DB_def)
  have f1: "filter_answers one_answer_DB 7 1 =
      [\<lparr>UserAnswer.uuid = 50, user_response = 7, question = 1, answer_option = Some 3,
       text_answer = Some ''old''\<rparr>]"
    by (simp add: filter_answers_def one_answer_DB_def empty_DB_def)
  have f1': "filter_answers one_answer_DB 7 1 = user_answers one_answer_DB"
    by (simp add: filter_answers_def one_answer_DB_def empty_DB_def)
  have n0: "user_answers empty_DB = []" "next_uuid empty_DB = 100"
    by (simp_all add: empty_DB_def)
  note a = text_answer_update[OF h1 w0, where r = 7 and opt = None and opt' = None, unfolded u]
  note b = text_answer_update[OF h1 w1, where r = 7 and opt = None and opt' = None, unfolded u]
  from a[where t = "Some ''new''" and t' = None] t f0 n0
  have c1: "user_answers (submit 7 (example_question TEXT) None (Some ''new'') empty_DB) =
     [\<lparr>UserAnswer.uuid = 100, user_response = 7, question = 1, answer_option = None,
       text_answer = Some ''new''\<rparr>]"
    and c5: "filter_answers (submit 7 (example_question TEXT) None None
      (submit 7 (example_question TEXT) None (Some ''new'') empty_DB)) 7 1 = []"
    by simp_all
  from b[where t = "Some ''new''" and t' = None] t f1
  have c2: "filter_answers (submit 7 (example_question TEXT) None (Some ''new'') one_answer_DB) 7 1 =
     [\<lparr>UserAnswer.uuid = 50, user_response = 7, question = 1, answer_option = Some 3,
       text_answer = Some ''new''\<rparr>]"
    by simp
  from b[where t = "Some ''''" and t' = None] t f1
  have c3: "filter_answers (submit 7 (example_question TEXT) None (Some '''') one_answer_DB) 7 1 = []"
    by simp
  from a[where t = None and t' = None] t f0
  have c4: "submit 7 (example_question TEXT) None None empty_DB = empty_DB"
    by simp
  show ?thesis
    using h1 w0 w1 t f0 f1' c1 c2 c3 c4 c5 by simp
qed

section \<open>Properties of the validators\<close>

lemma validator_map_recorded_failure:
  "validator_map ty as =
     (case recorded_failure ty as of
        None \<Rightarrow> Inr ()
      | Some msg \<Rightarrow> Inl (ValidateAnswerError msg None))"
proof (cases ty)
  case SINGLE_CHOICE
  then show ?thesis
    by (cases as)
       (simp_all add: SingleChoiceQuestionAnswerValidatorExtended_check_def Let_def)
next
  case MULTIPLE_CHOICE
  then show ?thesis
    by (simp add: MultipleChoiceValidatorExtendedQuestion_check_def)
next
  case TEXT
  then show ?thesis
    by (cases as) (simp_all add: TextQuestionAnswerValidatorExtended_check_def first_def)
qed

lemma record_failure_alt:
  "record_failure qa m =
     (case recorded_failure (Question.type (fst qa)) (snd qa) of
        None \<Rightarrow> m
      | Some msg \<Rightarrow> AList.update (Question.uuid (fst qa)) msg m)"
  by (simp add: record_failure_def validator_map_recorded_failure split: option.splits)

lemma fold_record_failure_other:
  "\<forall>y \<in> set qs. Question.uuid (fst y) = k \<longrightarrow>
       recorded_failure (Question.type (fst y)) (snd y) = None \<Longrightarrow>
   map_of (fold record_failure qs m) k = map_of m k"
proof (induction qs arbitrary: m)
  case Nil
  then show ?case by simp
next
  case (Cons y ys)
  have "map_of (record_failure y m) k = map_of m k"
    using Cons.prems
    by (auto simp: record_failure_alt update_conv' split: option.splits)
  with Cons show ?case by simp
qed

lemma fold_record_failure_some:
  "\<forall>y \<in> set qs. Question.uuid (fst y) = k \<longrightarrow>
       recorded_failure (Question.type (fst y)) (snd y) = Some msg \<Longrightarrow>
   map_of m k = Some msg \<or> (\<exists>x \<in> set qs. Question.uuid (fst x) = k) \<Longrightarrow>
   map_of (fold record_failure qs m) k = Some msg"
proof (induction qs arbitrary: m)
  case Nil
  then show ?case by simp
next
  case (Cons y ys)
  have all: "\<forall>y \<in> set ys. Question.uuid (fst y) = k \<longrightarrow>
       recorded_failure (Question.type (fst y)) (snd y) = Some msg"
    using Cons.prems(1) by simp
  show ?case
  proof (cases "Question.uuid (fst y) = k")
    case True
    with Cons.prems(1) have "recorded_failure (Question.type (fst y)) (snd y) = Some msg"
      by simp
    with True have "map_of (record_failure y m) k = Some msg"
      by (simp add: record_failure_alt update_conv')
    with Cons.IH[OF all] show ?thesis by simp
  next
    case False
    then have "map_of (record_failure y m) k = map_of m k"
      by (auto simp: record_failure_alt update_conv' split: option.splits)
    moreover from False Cons.prems(2)
    have "map_of m k = Some msg \<or> (\<exists>x \<in> set ys. Question.uuid (fst x) = k)" by auto
    ultimately show ?thesis using Cons.IH[OF all, of "record_failure y m"] by simp
  qed
qed

lemma fold_record_failure_map_of:
  assumes cons: "\<forall>x \<in> set qs. \<forall>y \<in> set qs.
            Question.uuid (fst x) = Question.uuid (fst y) \<longrightarrow> x = y"
    and x: "x \<in> set qs"
  shows "map_of (fold record_failure qs []) (Question.uuid (fst x)) =
           recorded_failure (Question.type (fst x)) (snd x)"
proof (cases "recorded_failure (Question.type (fst x)) (snd x)")
  case None
  with cons x have "\<forall>y \<in> set qs. Question.uuid (fst y) = Question.uuid (fst x) \<longrightarrow>
       recorded_failure (Question.type (fst y)) (snd y) = None"
    by metis
  from fold_record_failure_other[OF this, of "[]"] None show ?thesis by simp
next
  case (Some msg)
  with cons x have "\<forall>y \<in> set qs. Question.uuid (fst y) = Question.uuid (fst x) \<longrightarrow>
       recorded_failure (Question.type (fst y)) (snd y) = Some msg"
    by metis
  from fold_record_failure_some[OF this, of "[]"] x Some show ?thesis by auto
qed

lemma fold_record_failure_absent:
  "k \<notin> Question.uuid ` fst ` set qs \<Longrightarrow> map_of (fold record_failure qs []) k = None"
proof -
  assume "k \<notin> Question.uuid ` fst ` set qs"
  then have "\<forall>y \<in> set qs. Question.uuid (fst y) = k \<longrightarrow>
       recorded_failure (Question.type (fst y)) (snd y) = None"
    by auto
  from fold_record_failure_other[OF this, of "[]"] show ?thesis by simp
qed

lemma get_survey_questions_mem:
  "(q, as) \<in> set (get_survey_questions db s u r) \<longleftrightarrow>
     q \<in> set (DB.questions db) \<and> Question.survey q = Survey.uuid s \<and>
     as = prefetch_answers db u r q \<and>
     (\<exists>x \<in> set (user_responses db). UserResponse.survey x = Survey.uuid s \<and> response_matches u r x)"
  by (auto simp: get_survey_questions_def)

lemma distinct_key_eq:
  "distinct (map f xs) \<Longrightarrow> x \<in> set xs \<Longrightarrow> y \<in> set xs \<Longrightarrow> f x = f y \<Longrightarrow> x = y"
  by (metis distinct_map inj_onD)

lemma get_survey_questions_consistent:
  assumes pk: "distinct (map Question.uuid (DB.questions db))"
  shows "\<forall>x \<in> set (get_survey_questions db s u r). \<forall>y \<in> set (get_survey_questions db s u r).
            Question.uuid (fst x) = Question.uuid (fst y) \<longrightarrow> x = y"
proof (intro ballI impI)
  fix x y
  assume x: "x \<in> set (get_survey_questions db s u r)"
    and y: "y \<in> set (get_survey_questions db s u r)"
    and e: "Question.uuid (fst x) = Question.uuid (fst y)"
  obtain q as where xq: "x = (q, as)" by (cases x)
  obtain q' as' where yq: "y = (q', as')" by (cases y)
  from x xq have 1: "q \<in> set (DB.questions db)" "as = prefetch_answers db u r q"
    by (simp_all add: get_survey_questions_mem)
  from y yq have 2: "q' \<in> set (DB.questions db)" "as' = prefetch_answers db u r q'"
    by (simp_all add: get_survey_questions_mem)
  from e xq yq have "Question.uuid q = Question.uuid q'" by simp
  from distinct_key_eq[OF pk 1(1) 2(1) this] 1 2 xq yq show "x = y" by simp
qed

text \<open>
  Claim C1, as the code has it. The validator of the Complete-Survey pipeline runs the check
  of the question's type on every row of the question query, which covers every question of
  the survey once the caller has a session in it. The checks raise exactly what
  \<open>recorded_failure\<close> lists: for Text, "answer missing" when there is no answer and "no text"
  when the first answer has none (the number of answers is not looked at); for
  SingleChoice, "answer missing" for none and "multiple answers" for more than one; for
  MultipleChoice, "answer missing" for none. Every failure is stored under its question's
  key, a passing question gets no entry, no other key appears, and the validator raises one
  aggregate error carrying the map exactly when the map is not empty.
\<close>

theorem question_answers_validator_aggregates:
  assumes pk: "distinct (map Question.uuid (DB.questions db))"
  shows "(\<forall>ty as. validator_map ty as =
            (case recorded_failure ty as of
               None \<Rightarrow> Inr ()
             | Some msg \<Rightarrow> Inl (ValidateAnswerError msg None))) \<and>
         (\<forall>qa \<in> set (get_survey_questions db (UserAnswerRequest.survey req)
                         (UserAnswerRequest.user req) (UserAnswerRequest.user_response_uuid req)).
            snd qa = prefetch_answers db (UserAnswerRequest.user req)
                       (UserAnswerRequest.user_response_uuid req) (fst qa) \<and>
            map_of (question_error_map db req) (Question.uuid (fst qa)) =
              recorded_failure (Question.type (fst qa)) (snd qa)) \<and>
         (\<forall>k. k \<notin> Question.uuid ` fst ` set (get_survey_questions db (UserAnswerRequest.survey req)
                         (UserAnswerRequest.user req) (UserAnswerRequest.user_response_uuid req)) \<longrightarrow>
            map_of (question_error_map db req) k = None) \<and>
         QuestionAnswersValidator_check db req =
           (if question_error_map db req = [] then Inr ()
            else Inl (ValidateAnswerError AnswersValidationError (Some (question_error_map db req)))) \<and>
         ((\<exists>r \<in> set (user_responses db).
              UserResponse.survey r = Survey.uuid (UserAnswerRequest.survey req) \<and>
              response_matches (UserAnswerRequest.user req)
                (UserAnswerRequest.user_response_uuid req) r) \<longrightarrow>
          fst ` set (get_survey_questions db (UserAnswerRequest.survey req)
                      (UserAnswerRequest.user req) (UserAnswerRequest.user_response_uuid req)) =
            {q \<in> set (DB.questions db).
               Question.survey q = Survey.uuid (UserAnswerRequest.survey req)})"
proof (intro conjI allI ballI impI)
  fix ty as
  show "validator_map ty as =
            (case recorded_failure ty as of
               None \<Rightarrow> Inr ()
             | Some msg \<Rightarrow> Inl (ValidateAnswerError msg None))"
    by (rule validator_map_recorded_failure)
next
  fix qa
  assume "qa \<in> set (get_survey_questions db (UserAnswerRequest.survey req)
                         (UserAnswerRequest.user req) (UserAnswerRequest.user_response_uuid req))"
  moreover obtain q as where "qa = (q, as)" by (cases qa)
  ultimately show "snd qa = prefetch_answers db (UserAnswerRequest.user req)
                       (UserAnswerRequest.user_response_uuid req) (fst qa)"
    by (simp add: get_survey_questions_mem)
next
  fix qa
  assume "qa \<in> set (get_survey_questions db (UserAnswerRequest.survey req)
                         (UserAnswerRequest.user req) (UserAnswerRequest.user_response_uuid req))"
  from fold_record_failure_map_of[OF get_survey_questions_consistent[OF pk] this]
  show "map_of (question_error_map db req) (Question.uuid (fst qa)) =
              recorded_failure (Question.type (fst qa)) (snd qa)"
    by (simp add: question_error_map_def)
next
  fix k
  assume "k \<notin> Question.uuid ` fst ` set (get_survey_questions db (UserAnswerRequest.survey req)
                         (UserAnswerRequest.user req) (UserAnswerRequest.user_response_uuid req))"
  then show "map_of (question_error_map db req) k = None"
    unfolding question_error_map_def by (rule fold_record_failure_absent)
next
  show "QuestionAnswersValidator_check db req =
           (if question_error_map db req = [] then Inr ()
            else Inl (ValidateAnswerError AnswersValidationError (Some (question_error_map db req))))"
    by (simp add: QuestionAnswersValidator_check_def Let_def)
next
  assume "\<exists>r \<in> set (user_responses db).
              UserResponse.survey r = Survey.uuid (UserAnswerRequest.survey req) \<and>
              response_matches (UserAnswerRequest.user req)
                (UserAnswerRequest.user_response_uuid req) r"
  then have "\<And>q. (\<exists>as. (q, as) \<in> set (get_survey_questions db (UserAnswerRequest.survey req)
                      (UserAnswerRequest.user req) (UserAnswerRequest.user_response_uuid req))) \<longleftrightarrow>
             q \<in> set (DB.questions db) \<and>
             Question.survey q = Survey.uuid (UserAnswerRequest.survey req)"
    by (simp add: get_survey_questions_mem)
  then show "fst ` set (get_survey_questions db (UserAnswerRequest.survey req)
                      (UserAnswerRequest.user req) (UserAnswerRequest.user_response_uuid req)) =
            {q \<in> set (DB.questions db).
               Question.survey q = Survey.uuid (UserAnswerRequest.survey req)}"
    by force
qed

theorem question_answers_validator_aggregates_witness:
  "distinct (map Question.uuid (DB.questions half_answered_DB)) \<and>
   question_error_map half_answered_DB complete_request = [(2, AnswerMissing)] \<and>
   QuestionAnswersValidator_check half_answered_DB complete_request =
     Inl (ValidateAnswerError AnswersValidationError (Some [(2, AnswerMissing)]))"
proof -
  have pk: "distinct (map Question.uuid (DB.questions half_answered_DB))" by code_simp
  have m: "question_error_map half_answered_DB complete_request = [(2, AnswerMissing)]"
    by code_simp
  from question_answers_validator_aggregates[OF pk, of complete_request]
  have "QuestionAnswersValidator_check half_answered_DB complete_request =
           (if question_error_map half_answered_DB complete_request = [] then Inr ()
            else Inl (ValidateAnswerError AnswersValidationError
                   (Some (question_error_map half_answered_DB complete_request))))"
    by blast
  with pk m show ?thesis by simp
qed

text \<open>
  A Text question with two answers, the first of them with text, passes the validator,
  although it does not have exactly one answer.
\<close>

theorem text_two_answers_counterexample:
  "QuestionAnswersValidator_check two_text_DB complete_request = Inr () \<and>
   map (\<lambda>qa. (Question.uuid (fst qa), Question.type (fst qa), length (snd qa),
              spec_sufficient (Question.type (fst qa)) (snd qa)))
     (get_survey_questions two_text_DB (UserAnswerRequest.survey complete_request)
        (UserAnswerRequest.user complete_request)
        (UserAnswerRequest.user_response_uuid complete_request)) =
     [(2, TEXT, 2, False)]"
  by code_simp

lemma validate_first_failure:
  "\<forall>v \<in> set pre. v db req = Inr () \<Longrightarrow> v db req = Inl e \<Longrightarrow>
   validate (pre @ v # post) db req = Inl e"
  by (induction pre) auto

text \<open>
  Claim C5, as the code has it. The Submit-Answer pipeline returns the error of the first
  failing check in this order: the survey is Active; a non-Text question's answer carries
  no free text; the caller's session, if there is one, is not Completed; a Text question's
  answer carries no option reference.
\<close>

theorem UserAnswerChecker_order:
  "validate UserAnswerChecker_validators db req =
     (if Survey.status (UserAnswerRequest.survey req) \<noteq> ACTIVE
        then Inl (ValidateAnswerError SurveyNotActive None)
      else if get_question_type db (UserAnswerRequest.question req) \<noteq> Some TEXT \<and>
              truthy (UserAnswerRequest.text_answer req)
        then Inl (ValidateAnswerError AnswerMustContainOption None)
      else if is_survey_completed db req
        then Inl (ValidateAnswerError SurveyAlreadyCompleted None)
      else if get_question_type db (UserAnswerRequest.question req) = Some TEXT \<and>
              truthy (UserAnswerRequest.answer_option req)
        then Inl (ValidateAnswerError AnswerMustContainText None)
      else Inr ())"
  by (simp add: UserAnswerChecker_validators_def IsSurveyActiveValidator_check_def
      ChoiceAnswerValidator_check_def CompletedSurveyValidator_check_def
      TextAnswerValidator_check_def)

theorem UserAnswerChecker_order_witness:
  "Survey.status (UserAnswerRequest.survey completed_text_request) = ACTIVE \<and>
   get_question_type stat_DB (UserAnswerRequest.question completed_text_request) = Some TEXT \<and>
   is_survey_completed stat_DB completed_text_request \<and>
   truthy (UserAnswerRequest.answer_option completed_text_request) \<and>
   validate UserAnswerChecker_validators stat_DB completed_text_request =
     Inl (ValidateAnswerError SurveyAlreadyCompleted None)"
proof -
  have c: "Survey.status (UserAnswerRequest.survey completed_text_request) = ACTIVE"
    "get_question_type stat_DB (UserAnswerRequest.question completed_text_request) = Some TEXT"
    "is_survey_completed stat_DB completed_text_request"
    "truthy (UserAnswerRequest.answer_option completed_text_request)"
    by code_simp+
  from UserAnswerChecker_order[of stat_DB completed_text_request] c
  show ?thesis by simp
qed

text \<open>
  With a completed session and an option reference sent for a Text question, the code
  reports the completed session, while the order of the specification reports the shape
  of the answer.
\<close>

theorem submit_pipeline_order_counterexample:
  "validate UserAnswerChecker_validators stat_DB completed_text_request =
     Inl (ValidateAnswerError SurveyAlreadyCompleted None) \<and>
   validate spec_SubmitAnswer_validators stat_DB completed_text_request =
     Inl (ValidateAnswerError AnswerMustContainText None)"
  by code_simp

section \<open>Properties of the statistics\<close>

lemma stat_key_question:
  "stat_key db a = Some k \<Longrightarrow> Question.uuid (key_question k) = UserAnswer.question a"
proof -
  assume h: "stat_key db a = Some k"
  then obtain q where q: "first (filter (\<lambda>q. Question.uuid q = UserAnswer.question a) (DB.questions db)) = Some q"
    and kq: "key_question k = q"
    by (auto simp: stat_key_def split: option.splits)
  from first_Some_mem[OF q] have "Question.uuid q = UserAnswer.question a" by simp
  with kq show ?thesis by simp
qed

lemma count_keys_le:
  "length (filter (\<lambda>k'. k' = k) (List.map_filter (stat_key db) as)) \<le>
   length (filter (\<lambda>a. UserAnswer.question a = Question.uuid (key_question k)) as)"
proof (induction as)
  case Nil
  then show ?case by (simp add: List.map_filter_simps)
next
  case (Cons a as)
  show ?case
  proof (cases "stat_key db a")
    case None
    with Cons show ?thesis by (simp add: List.map_filter_simps)
  next
    case (Some k')
    from stat_key_question[OF Some] Cons Some show ?thesis
      by (auto simp: List.map_filter_simps)
  qed
qed

lemma stat_row_fields:
  "StatRow.total_count (stat_row db sid keys k) =
     length (filter (\<lambda>a. UserAnswer.question a = Question.uuid (key_question k))
               (completed_answers db sid))"
  "answer_count (stat_row db sid keys k) = length (filter (\<lambda>k'. k' = k) keys)"
  "question_id__uuid (stat_row db sid keys k) = Question.uuid (key_question k)"
  "StatRow.percentage (stat_row db sid keys k) =
     Round (of_nat (answer_count (stat_row db sid keys k)) * 100 /
            of_nat (StatRow.total_count (stat_row db sid keys k))) 2"
  by (simp_all add: stat_row_def Let_def total_counts_def)

lemma get_survey_stat_row:
  assumes "row \<in> set (get_survey_stat db sid)"
  obtains k where "k \<in> set (List.map_filter (stat_key db) (completed_answers db sid))"
    and "row = stat_row db sid (List.map_filter (stat_key db) (completed_answers db sid)) k"
  using assms by (auto simp: get_survey_stat_def Let_def)

text \<open>
  Claim C6, as the code has it. In every row of the aggregate statistics, \<open>total_count\<close> is
  the number of answer rows the completed sessions of the survey hold for the row's
  question, \<open>answer_count\<close> is at least one and at most \<open>total_count\<close>, and \<open>percentage\<close> is
  \<open>answer_count * 100 / total_count\<close> rounded to two places.
\<close>

theorem survey_stat_percentage:
  "\<forall>row \<in> set (get_survey_stat db survey_uuid).
     StatRow.total_count row =
       length (filter (\<lambda>a. UserAnswer.question a = question_id__uuid row)
                 (completed_answers db survey_uuid)) \<and>
     1 \<le> answer_count row \<and> answer_count row \<le> StatRow.total_count row \<and>
     StatRow.percentage row =
       Round (of_nat (answer_count row) * 100 / of_nat (StatRow.total_count row)) 2"
proof
  fix row
  assume "row \<in> set (get_survey_stat db survey_uuid)"
  then obtain k where k: "k \<in> set (List.map_filter (stat_key db) (completed_answers db survey_uuid))"
    and row: "row = stat_row db survey_uuid
                (List.map_filter (stat_key db) (completed_answers db survey_uuid)) k"
    by (rule get_survey_stat_row)
  from k have "filter (\<lambda>k'. k' = k)
      (List.map_filter (stat_key db) (completed_answers db survey_uuid)) \<noteq> []"
    by (auto simp: filter_empty_conv)
  then have pos: "1 \<le> answer_count row"
    unfolding row stat_row_fields by (simp add: Suc_le_eq)
  have le: "answer_count row \<le> StatRow.total_count row"
    unfolding row stat_row_fields by (rule count_keys_le)
  show "StatRow.total_count row =
       length (filter (\<lambda>a. UserAnswer.question a = question_id__uuid row)
                 (completed_answers db survey_uuid)) \<and>
     1 \<le> answer_count row \<and> answer_count row \<le> StatRow.total_count row \<and>
     StatRow.percentage row =
       Round (of_nat (answer_count row) * 100 / of_nat (StatRow.total_count row)) 2"
    using pos le unfolding row by (simp add: stat_row_fields)
qed

theorem survey_stat_percentage_witness:
  "hd (get_survey_stat stat_DB 0) \<in> set (get_survey_stat stat_DB 0) \<and>
   StatRow.total_count (hd (get_survey_stat stat_DB 0)) =
     length (filter (\<lambda>a. UserAnswer.question a = question_id__uuid (hd (get_survey_stat stat_DB 0)))
               (completed_answers stat_DB 0)) \<and>
   StatRow.percentage (hd (get_survey_stat stat_DB 0)) =
     Round (of_nat (answer_count (hd (get_survey_stat stat_DB 0))) * 100 /
            of_nat (StatRow.total_count (hd (get_survey_stat stat_DB 0)))) 2"
proof -
  have ne: "get_survey_stat stat_DB 0 \<noteq> []" by code_simp
  then have h: "hd (get_survey_stat stat_DB 0) \<in> set (get_survey_stat stat_DB 0)" by simp
  from survey_stat_percentage[of stat_DB 0] h show ?thesis by blast
qed

text \<open>
  One completed respondent who selected two options of a question: the row's \<open>total_count\<close>
  is 2, the number of completed respondents who answered the question is 1.
\<close>

theorem total_count_counterexample:
  "StatRow.total_count (hd (get_survey_stat stat_DB 0)) = 2 \<and>
   spec_total_count_for_question stat_DB 0 (question_id__uuid (hd (get_survey_stat stat_DB 0))) = 1"
  by code_simp

lemma set_map_filter_Some: "x \<in> set (List.map_filter f xs) \<longleftrightarrow> (\<exists>y \<in> set xs. f y = Some x)"
  by (induction xs) (auto simp: List.map_filter_simps split: option.splits)

lemma null_answer_options_char:
  "\<exists>os. null_answer_options db q = map null_answer os \<and>
        sorted (map AnswerOption.seq_id os) \<and>
        set os = {opt \<in> set (answer_options db).
                    Some (AnswerOption.question opt) = QuestionStatDict.uuid q \<and>
                    Some (AnswerOption.uuid opt) \<notin> AnswerStat.uuid ` set (answers q)}"
proof -
  let ?listed = "List.map_filter AnswerStat.uuid (answers q)"
  let ?opts = "sort_key AnswerOption.seq_id
                 (filter (\<lambda>opt. Some (AnswerOption.question opt) = QuestionStatDict.uuid q)
                    (answer_options db))"
  let ?os = "filter (\<lambda>opt. AnswerOption.uuid opt \<notin> set ?listed) ?opts"
  have 1: "null_answer_options db q = map null_answer ?os"
    by (simp add: null_answer_options_def Let_def)
  have "sorted (map AnswerOption.seq_id ?opts)" by simp
  then have 2: "sorted (map AnswerOption.seq_id ?os)" by (rule sorted_filter)
  have l: "\<And>u. u \<in> set ?listed \<longleftrightarrow> Some u \<in> AnswerStat.uuid ` set (answers q)"
    by (simp add: set_map_filter_Some image_iff eq_commute)
  have 3: "set ?os = {opt \<in> set (answer_options db).
                    Some (AnswerOption.question opt) = QuestionStatDict.uuid q \<and>
                    Some (AnswerOption.uuid opt) \<notin> AnswerStat.uuid ` set (answers q)}"
    using l by auto
  from 1 2 3 show ?thesis by blast
qed

text \<open>
  Claim C7, as the code has it. \<open>add_null_answer_options\<close> keeps the questions and, for each
  of them, keeps its answer list as it is and appends to it one entry with count 0 and
  percentage 0 for exactly the options of the question whose key is not listed; the
  appended entries are in \<open>seq_id\<close> order among themselves.
\<close>

theorem add_null_answer_options_appends:
  "length (SurveyStat.questions (add_null_answer_options db survey_stat)) =
     length (SurveyStat.questions survey_stat) \<and>
   (\<forall>i < length (SurveyStat.questions survey_stat).
      \<exists>os. answers (SurveyStat.questions (add_null_answer_options db survey_stat) ! i) =
             answers (SurveyStat.questions survey_stat ! i) @ map null_answer os \<and>
           sorted (map AnswerOption.seq_id os) \<and>
           set os = {opt \<in> set (answer_options db).
                       Some (AnswerOption.question opt) =
                         QuestionStatDict.uuid (SurveyStat.questions survey_stat ! i) \<and>
                       Some (AnswerOption.uuid opt) \<notin>
                         AnswerStat.uuid ` set (answers (SurveyStat.questions survey_stat ! i))})"
proof (intro conjI allI impI)
  show "length (SurveyStat.questions (add_null_answer_options db survey_stat)) =
     length (SurveyStat.questions survey_stat)"
    by (simp add: add_null_answer_options_def)
next
  fix i
  assume i: "i < length (SurveyStat.questions survey_stat)"
  let ?q = "SurveyStat.questions survey_stat ! i"
  from i have "answers (SurveyStat.questions (add_null_answer_options db survey_stat) ! i) =
      answers ?q @ null_answer_options db ?q"
    by (simp add: add_null_answer_options_def)
  with null_answer_options_char[of db ?q]
  show "\<exists>os. answers (SurveyStat.questions (add_null_answer_options db survey_stat) ! i) =
             answers ?q @ map null_answer os \<and>
           sorted (map AnswerOption.seq_id os) \<and>
           set os = {opt \<in> set (answer_options db).
                       Some (AnswerOption.question opt) = QuestionStatDict.uuid ?q \<and>
                       Some (AnswerOption.uuid opt) \<notin> AnswerStat.uuid ` set (answers ?q)}"
    by auto
qed

theorem add_null_answer_options_appends_witness:
  "0 < length (SurveyStat.questions stat_DB_survey_stat) \<and>
   (\<exists>os. answers (SurveyStat.questions (add_null_answer_options stat_DB stat_DB_survey_stat) ! 0) =
             answers (SurveyStat.questions stat_DB_survey_stat ! 0) @ map null_answer os \<and>
           sorted (map AnswerOption.seq_id os) \<and>
           set os = {opt \<in> set (answer_options stat_DB).
                       Some (AnswerOption.question opt) =
                         QuestionStatDict.uuid (SurveyStat.questions stat_DB_survey_stat ! 0) \<and>
                       Some (AnswerOption.uuid opt) \<notin>
                         AnswerStat.uuid ` set (answers (SurveyStat.questions stat_DB_survey_stat ! 0))})"
proof -
  have h: "0 < length (SurveyStat.questions stat_DB_survey_stat)" by code_simp
  from add_null_answer_options_appends[of stat_DB stat_DB_survey_stat] h show ?thesis by blast
qed

text \<open>
  Options A, B, C in this \<open>seq_id\<close> order, of which B and C were selected: the resulting
  list is B, C, A, which is not ordered by \<open>seq_id\<close>.
\<close>

theorem answer_order_counterexample:
  "map AnswerStat.uuid
     (answers (hd (SurveyStat.questions (add_null_answer_options stat_DB stat_DB_survey_stat)))) =
     [Some 12, Some 13, Some 11] \<and>
   answer_seq_ids stat_DB
     (answers (hd (SurveyStat.questions (add_null_answer_options stat_DB stat_DB_survey_stat)))) =
     [Some 2, Some 3, Some 1] \<and>
   \<not> sorted (answer_seq_ids stat_DB
     (answers (hd (SurveyStat.questions (add_null_answer_options stat_DB stat_DB_survey_stat)))))"
  by code_simp

lemma AList_update_nonempty: "AList.update k v al \<noteq> []"
  by (cases al) auto

lemma fold_step_nonempty:
  "rows \<noteq> [] \<or> acc \<noteq> [] \<Longrightarrow> fold stat_survey_step rows acc \<noteq> []"
proof (induction rows arbitrary: acc)
  case Nil
  then show ?case by simp
next
  case (Cons row rows)
  have "stat_survey_step row acc \<noteq> []"
    by (simp add: stat_survey_step_def Let_def AList_update_nonempty)
  then show ?case using Cons.IH[of "stat_survey_step row acc"] by simp
qed

lemma stat_survey_returns: "rows \<noteq> [] \<Longrightarrow> \<exists>s. stat_survey rows = Inr s"
proof -
  assume "rows \<noteq> []"
  then have "fold stat_survey_step rows [] \<noteq> []" by (simp add: fold_step_nonempty)
  then show ?thesis
    by (auto simp: stat_survey_def split: list.splits)
qed

lemma validate_stat_rows:
  assumes "validate SurveyStatChecker_validators db req = Inr ()"
  shows "get_survey_stat db (Survey.uuid (UserAnswerRequest.survey req)) \<noteq> []"
  using assms
  by (auto simp: SurveyStatChecker_validators_def IsSurveyStatValidator_check_def
      split: sum.splits if_splits)

text \<open>
  Claim C10. When the Stat-Access pipeline passes, the aggregation over the rows of the
  same statistics query returns a survey: it does not raise \<open>StopIteration\<close>.
\<close>

theorem stat_survey_after_stat_access:
  assumes "validate SurveyStatChecker_validators db req = Inr ()"
  shows "\<exists>s. stat_survey (get_survey_stat db (Survey.uuid (UserAnswerRequest.survey req))) = Inr s"
  using validate_stat_rows[OF assms] by (rule stat_survey_returns)

theorem stat_survey_after_stat_access_witness:
  "validate SurveyStatChecker_validators stat_DB owner_request = Inr () \<and>
   (\<exists>s. stat_survey (get_survey_stat stat_DB (Survey.uuid (UserAnswerRequest.survey owner_request)))
          = Inr s)"
proof -
  have h: "validate SurveyStatChecker_validators stat_DB owner_request = Inr ()"
    by code_simp
  show ?thesis using h stat_survey_after_stat_access[OF h] by simp
qed

section \<open>Properties of saving a survey\<close>

lemma write_fields_uuid: "Survey.uuid (write_fields fs self row) = Survey.uuid row"
  by (simp add: write_fields_def)

lemma write_fields_end_date:
  "Survey.end_date (write_fields fs self row) =
     (if Field_end_date \<in> set fs then Survey.end_date self else Survey.end_date row)"
  by (simp add: write_fields_def)

lemma pk_exists_stored: "pk_exists db self \<longleftrightarrow> stored_survey db (Survey.uuid self) \<noteq> None"
  by (auto simp: pk_exists_def stored_survey_def first_None filter_empty_conv)

lemma filter_key_map:
  "(\<And>x. f (g x) = f x) \<Longrightarrow> filter (\<lambda>x. f x = u) (map g xs) = map g (filter (\<lambda>x. f x = u) xs)"
  by (induction xs) auto

lemma first_map: "first (map g xs) = map_option g (first xs)"
  by (cases xs) (simp_all add: first_def)

lemma first_append: "first (xs @ ys) = (case first xs of Some x \<Rightarrow> Some x | None \<Rightarrow> first ys)"
  by (cases xs) (simp_all add: first_def)

lemma stored_do_update:
  "stored_survey (do_update db self fs) u =
     map_option (\<lambda>s. if Survey.uuid s = Survey.uuid self then write_fields fs self s else s)
       (stored_survey db u)"
proof -
  have "filter (\<lambda>s. Survey.uuid s = u)
          (map (\<lambda>s. if Survey.uuid s = Survey.uuid self then write_fields fs self s else s)
             (surveys db)) =
        map (\<lambda>s. if Survey.uuid s = Survey.uuid self then write_fields fs self s else s)
          (filter (\<lambda>s. Survey.uuid s = u) (surveys db))"
    by (rule filter_key_map) (simp add: write_fields_uuid)
  then show ?thesis by (simp add: stored_survey_def do_update_def first_map)
qed

lemma stored_do_insert:
  "stored_survey (do_insert db self) u =
     (case stored_survey db u of
        Some s \<Rightarrow> Some s
      | None \<Rightarrow> if u = Survey.uuid self then Some (self\<lparr>Survey.owner_user_ids := []\<rparr>) else None)"
  by (cases "filter (\<lambda>s. Survey.uuid s = u) (surveys db)")
     (simp_all add: stored_survey_def do_insert_def first_def)

lemma stored_survey_uuid: "stored_survey db u = Some s \<Longrightarrow> Survey.uuid s = u"
proof -
  assume "stored_survey db u = Some s"
  then have "s \<in> set (filter (\<lambda>s. Survey.uuid s = u) (surveys db))"
    unfolding stored_survey_def by (rule first_Some_mem)
  then show ?thesis by simp
qed

lemma Model_save_frame:
  assumes "Model_save kw adding db self = Inr (db', adding')"
  shows "stored_end_date db' u = stored_end_date db u \<or>
         (u = Survey.uuid self \<and> stored_end_date db' u = Some (Survey.end_date self))"
proof -
  have upd: "stored_end_date (do_update db self fs) u = stored_end_date db u \<or>
         (u = Survey.uuid self \<and>
          stored_end_date (do_update db self fs) u = Some (Survey.end_date self))" for fs
  proof (cases "stored_survey db u")
    case None
    then show ?thesis by (simp add: stored_end_date_def stored_do_update)
  next
    case (Some s)
    with stored_survey_uuid[OF Some] show ?thesis
      by (simp add: stored_end_date_def stored_do_update write_fields_end_date)
  qed
  have ins: "stored_end_date (do_insert db self) u = stored_end_date db u \<or>
         (u = Survey.uuid self \<and>
          stored_end_date (do_insert db self) u = Some (Survey.end_date self))"
    by (cases "stored_survey db u") (simp_all add: stored_end_date_def stored_do_insert)
  from assms upd ins show ?thesis
    by (auto simp: Model_save_def split: if_splits)
qed

lemma Model_save_writes:
  assumes "Model_save kw adding db self = Inr (db', adding')"
    and "writes_end_date kw"
  shows "stored_end_date db' (Survey.uuid self) = Some (Survey.end_date self)"
proof -
  from assms(2) have ne: "update_fields kw \<noteq> Some []"
    by (auto simp: writes_end_date_def)
  have mem: "Field_end_date \<in> set (case update_fields kw of None \<Rightarrow> all_fields | Some fs \<Rightarrow> fs)"
    using assms(2) by (auto simp: writes_end_date_def all_fields_def split: option.splits)
  have upd: "pk_exists db self \<Longrightarrow>
      stored_end_date (do_update db self
        (case update_fields kw of None \<Rightarrow> all_fields | Some fs \<Rightarrow> fs)) (Survey.uuid self) =
      Some (Survey.end_date self)"
  proof -
    assume "pk_exists db self"
    then obtain s where s: "stored_survey db (Survey.uuid self) = Some s"
      by (auto simp: pk_exists_stored)
    with stored_survey_uuid[OF s] mem show ?thesis
      by (simp add: stored_end_date_def stored_do_update write_fields_end_date)
  qed
  have ins: "\<not> pk_exists db self \<Longrightarrow>
      stored_end_date (do_insert db self) (Survey.uuid self) = Some (Survey.end_date self)"
    by (simp add: pk_exists_stored stored_end_date_def stored_do_insert)
  from assms(1) ne upd ins show ?thesis
    by (auto simp: Model_save_def split: if_splits)
qed

lemma pk_exists_do_insert: "Survey.uuid self' = Survey.uuid self \<Longrightarrow> pk_exists (do_insert db self) self'"
  by (simp add: pk_exists_def do_insert_def)

lemma pk_exists_do_update:
  "pk_exists (do_update db self fs) self' \<longleftrightarrow> pk_exists db self'"
  by (simp add: pk_exists_stored stored_do_update)

lemma Model_save_no_args:
  assumes "adding \<longrightarrow> \<not> pk_exists db self"
  shows "\<exists>db'. Model_save no_args adding db self = Inr (db', False) \<and>
              (\<forall>self'. Survey.uuid self' = Survey.uuid self \<longrightarrow> pk_exists db' self')"
proof (cases "pk_exists db self")
  case True
  with assms have "\<not> adding" by blast
  with True have "Model_save no_args adding db self = Inr (do_update db self all_fields, False)"
    by (simp add: Model_save_def no_args_def)
  moreover from True have "\<forall>self'. Survey.uuid self' = Survey.uuid self \<longrightarrow>
      pk_exists (do_update db self all_fields) self'"
    by (simp add: pk_exists_do_update) (simp add: pk_exists_def)
  ultimately show ?thesis by blast
next
  case False
  then have "Model_save no_args adding db self = Inr (do_insert db self, False)"
    by (simp add: Model_save_def no_args_def)
  then show ?thesis by (simp add: pk_exists_do_insert)
qed

text \<open>
  Claim C8, as the code has it. A save that completes while the survey's status is Closed
  sets the instance's \<open>end_date\<close> to the current time, whether or not the status has just
  changed, and stores that time when the save writes \<open>end_date\<close>. A save without arguments
  completes for an instance that was loaded from the store and for one under a new key. A
  save made in any other status leaves the instance as it is; what is stored as \<open>end_date\<close>
  changes under the instance's key at most, and then to the instance's value.
\<close>

theorem survey_save_end_date:
  "(Survey.status self \<noteq> CLOSED \<longrightarrow>
      out_self (Survey_save now kw adding db self) = self \<and>
      (\<forall>u. stored_end_date (out_db (Survey_save now kw adding db self)) u = stored_end_date db u \<or>
           (u = Survey.uuid self \<and>
            stored_end_date (out_db (Survey_save now kw adding db self)) u =
              Some (Survey.end_date self)))) \<and>
   (Survey.status self = CLOSED \<and> out_raised (Survey_save now kw adding db self) = None \<longrightarrow>
      out_self (Survey_save now kw adding db self) = self\<lparr>Survey.end_date := Some now\<rparr> \<and>
      (writes_end_date kw \<longrightarrow>
         stored_end_date (out_db (Survey_save now kw adding db self)) (Survey.uuid self) =
           Some (Some now))) \<and>
   (kw = no_args \<and> (adding \<longrightarrow> \<not> pk_exists db self) \<longrightarrow>
      out_raised (Survey_save now kw adding db self) = None)"
proof (intro conjI impI allI)
  assume "Survey.status self \<noteq> CLOSED"
  then show "out_self (Survey_save now kw adding db self) = self"
    by (simp add: Survey_save_def split: sum.splits prod.splits)
next
  fix u
  assume ns: "Survey.status self \<noteq> CLOSED"
  show "stored_end_date (out_db (Survey_save now kw adding db self)) u = stored_end_date db u \<or>
           (u = Survey.uuid self \<and>
            stored_end_date (out_db (Survey_save now kw adding db self)) u =
              Some (Survey.end_date self))"
  proof (cases "Model_save kw adding db self")
    case (Inl e)
    then show ?thesis by (simp add: Survey_save_def)
  next
    case (Inr p)
    obtain db1 adding1 where p: "p = (db1, adding1)" by (cases p)
    from Inr p ns have "out_db (Survey_save now kw adding db self) = db1"
      by (simp add: Survey_save_def)
    with Model_save_frame[of kw adding db self db1 adding1 u] Inr p show ?thesis by simp
  qed
next
  assume h: "Survey.status self = CLOSED \<and> out_raised (Survey_save now kw adding db self) = None"
  then show "out_self (Survey_save now kw adding db self) = self\<lparr>Survey.end_date := Some now\<rparr>"
    by (auto simp: Survey_save_def Let_def split: sum.splits prod.splits)
next
  assume h: "Survey.status self = CLOSED \<and> out_raised (Survey_save now kw adding db self) = None"
    and w: "writes_end_date kw"
  from h obtain db1 adding1 db2 adding2
    where "Model_save kw adding1 db1 (self\<lparr>Survey.end_date := Some now\<rparr>) = Inr (db2, adding2)"
      and o: "out_db (Survey_save now kw adding db self) = db2"
    by (auto simp: Survey_save_def Let_def split: sum.splits prod.splits)
  from Model_save_writes[OF this(1) w] o
  show "stored_end_date (out_db (Survey_save now kw adding db self)) (Survey.uuid self) =
           Some (Some now)"
    by simp
next
  assume h: "kw = no_args \<and> (adding \<longrightarrow> \<not> pk_exists db self)"
  then obtain db1 where 1: "Model_save no_args adding db self = Inr (db1, False)"
    and e: "\<forall>self'. Survey.uuid self' = Survey.uuid self \<longrightarrow> pk_exists db1 self'"
    using Model_save_no_args[of adding db self] by blast
  from e have "False \<longrightarrow> \<not> pk_exists db1 (self\<lparr>Survey.end_date := Some now\<rparr>)" by simp
  from Model_save_no_args[OF this]
  obtain db2 where 2: "Model_save no_args False db1 (self\<lparr>Survey.end_date := Some now\<rparr>) =
      Inr (db2, False)" by blast
  from h 1 2 show "out_raised (Survey_save now kw adding db self) = None"
    by (simp add: Survey_save_def Let_def)
qed

theorem survey_save_end_date_witness:
  "Survey.status closed_survey = CLOSED \<and>
   Survey.end_date closed_survey = Some 10 \<and>
   writes_end_date no_args \<and>
   out_raised (Survey_save 20 no_args False closed_DB closed_survey) = None \<and>
   out_self (Survey_save 20 no_args False closed_DB closed_survey) =
     closed_survey\<lparr>Survey.end_date := Some 20\<rparr> \<and>
   stored_end_date (out_db (Survey_save 20 no_args False closed_DB closed_survey)) 0 =
     Some (Some 20) \<and>
   Survey.status (closed_survey\<lparr>Survey.status := ARCHIVED\<rparr>) \<noteq> CLOSED \<and>
   out_self (Survey_save 20 no_args False closed_DB (closed_survey\<lparr>Survey.status := ARCHIVED\<rparr>)) =
     closed_survey\<lparr>Survey.status := ARCHIVED\<rparr>"
proof -
  have s: "Survey.status closed_survey = CLOSED" "Survey.end_date closed_survey = Some 10"
    "Survey.uuid closed_survey = 0"
    by (simp_all add: closed_survey_def)
  have w: "writes_end_date no_args"
    by (simp add: writes_end_date_def no_args_def)
  note t = survey_save_end_date[of closed_survey 20 no_args False closed_DB]
  from t have r: "out_raised (Survey_save 20 no_args False closed_DB closed_survey) = None"
    by simp
  from t s w r have c:
    "out_self (Survey_save 20 no_args False closed_DB closed_survey) =
       closed_survey\<lparr>Survey.end_date := Some 20\<rparr>"
    "stored_end_date (out_db (Survey_save 20 no_args False closed_DB closed_survey)) 0 =
       Some (Some 20)"
    by simp_all
  have a: "Survey.status (closed_survey\<lparr>Survey.status := ARCHIVED\<rparr>) \<noteq> CLOSED" by simp
  from survey_save_end_date[of "closed_survey\<lparr>Survey.status := ARCHIVED\<rparr>" 20 no_args False
      closed_DB] a
  have "out_self (Survey_save 20 no_args False closed_DB
          (closed_survey\<lparr>Survey.status := ARCHIVED\<rparr>)) =
        closed_survey\<lparr>Survey.status := ARCHIVED\<rparr>"
    by blast
  with s w r c a show ?thesis by simp
qed

text \<open>
  A survey stored as Closed with \<open>end_date\<close> 10, loaded and saved again at time 20, is
  stored with \<open>end_date\<close> 20.
\<close>

theorem closed_resave_counterexample:
  "stored_survey closed_DB 0 = Some closed_survey \<and>
   Survey.status closed_survey = CLOSED \<and>
   Survey.end_date closed_survey = Some 10 \<and>
   out_raised (Survey_save 20 no_args False closed_DB closed_survey) = None \<and>
   stored_end_date (out_db (Survey_save 20 no_args False closed_DB closed_survey)) 0 =
     Some (Some 20)"
  by code_simp

text \<open>
  A save that forces an insert, as \<open>Manager.create\<close> issues it, does not complete for a
  Closed survey: the second call of \<open>super().save\<close> inserts under the key the first call
  has just stored. The row of the first insert stays, with the \<open>end_date\<close> the instance had.
\<close>

lemma survey_save_forced_insert_raises:
  assumes "Survey.status self = CLOSED" and "force_insert kw" and "update_fields kw \<noteq> Some []"
  shows "out_raised (Survey_save now kw adding db self) \<noteq> None"
proof (cases "Model_save kw adding db self")
  case (Inl e)
  then show ?thesis by (simp add: Survey_save_def)
next
  case (Inr p)
  obtain db1 adding1 where p: "p = (db1, adding1)" by (cases p)
  from Inr p assms have kw: "\<not> force_update kw" "update_fields kw = None"
    and db1: "db1 = do_insert db self"
    by (auto simp: Model_save_def split: if_splits option.splits)
  have "pk_exists db1 (self\<lparr>Survey.end_date := Some now\<rparr>)"
    unfolding db1 by (rule pk_exists_do_insert) simp
  with kw assms(2)
  have "Model_save kw adding1 db1 (self\<lparr>Survey.end_date := Some now\<rparr>) = Inl IntegrityError"
    by (simp add: Model_save_def)
  with Inr p assms(1) show ?thesis by (simp add: Survey_save_def Let_def)
qed

lemma create_closed_survey_example:
  "out_raised (Survey_save 20 create_args True empty_DB new_closed_survey) = Some IntegrityError \<and>
   Survey.end_date (out_self (Survey_save 20 create_args True empty_DB new_closed_survey)) =
     Some 20 \<and>
   stored_end_date (out_db (Survey_save 20 create_args True empty_DB new_closed_survey)) 7 =
     Some None"
  by code_simp

end
